theory Spec2Isabelle
  imports Complex_Main
begin

section \<open>JavaScript values that the service builds\<close>

text \<open>
  Object literals of the source are association lists in key order. Numbers are rationals.
  The numbers that this program puts into objects are status codes, which are integers, and
  durations, which are an integer count of milliseconds divided by 1000: there the rational
  stands for the double nearest to it, which JavaScript prints with the same digits and
  which lies on the same side of every bucket bound of the histogram.
\<close>

datatype json = JStr string | JNum rat | JObj "(string \<times> json) list"

definition digit :: "nat \<Rightarrow> char" where
  "digit n = ''0123456789'' ! (n mod 10)"

function show_nat :: "nat \<Rightarrow> string" where
  "show_nat n = (if n < 10 then [digit n] else show_nat (n div 10) @ [digit n])"
  by pat_completeness auto
termination
  by (relation "measure id") auto

definition strip_zeros :: "string \<Rightarrow> string" where
  "strip_zeros ds = rev (dropWhile (\<lambda>c. c = CHR ''0'') (rev ds))"

text \<open>
  Number to text, as JavaScript prints a number that has at most three decimals (every
  number above): a sign if negative, the integer part, then the decimals without trailing
  zeros.
\<close>

definition show_num :: "rat \<Rightarrow> string" where
  "show_num q =
     (let k = \<lfloor>q * 1000\<rfloor>; a = nat \<bar>k\<bar>; fp = a mod 1000
      in (if k < 0 then ''-'' else []) @ show_nat (a div 1000) @
         (if fp = 0 then []
          else CHR ''.'' # strip_zeros [digit (fp div 100), digit (fp div 10), digit fp]))"

fun escape :: "string \<Rightarrow> string" where
  "escape [] = []"
| "escape (c # cs) =
     (if c = CHR 0x22 \<or> c = CHR 0x5C then CHR 0x5C # c # escape cs else c # escape cs)"

definition quote :: "string \<Rightarrow> string" where
  "quote s = CHR 0x22 # escape s @ [CHR 0x22]"

definition commas :: "string list \<Rightarrow> string" where
  "commas xs = (case xs of [] \<Rightarrow> [] | y # ys \<Rightarrow> y @ concat (map (\<lambda>z. CHR '','' # z) ys))"

text \<open>
  \<open>JSON.stringify\<close> on strings, numbers and objects. Quotes and backslashes are
  escaped; the other characters are copied.
\<close>

fun stringify :: "json \<Rightarrow> string" where
  "stringify (JStr s) = quote s"
| "stringify (JNum q) = show_num q"
| "stringify (JObj kvs) =
     CHR ''{'' # commas (map (\<lambda>(k, v). quote k @ CHR '':'' # stringify v) kvs) @ [CHR ''}'']"

section \<open>The metric registry\<close>

record labels =
  l_method :: string
  l_endpoint :: string
  l_status :: nat

record counter_config =
  cfg_name :: string
  cfg_help :: string
  cfg_labelNames :: "string list"

record histogram_config = counter_config +
  cfg_buckets :: "rat list"

text \<open>\<open>src/index.js\<close>, lines 15 to 26.\<close>

definition requestCounter_index :: counter_config where
  "requestCounter_index =
     \<lparr>cfg_name = ''http_requests_total'',
      cfg_help = ''Total number of HTTP requests made'',
      cfg_labelNames = [''method'', ''endpoint'', ''status'']\<rparr>"

definition responseTimeHistogram_index :: histogram_config where
  "responseTimeHistogram_index =
     \<lparr>cfg_name = ''http_response_time_seconds'',
      cfg_help = ''HTTP response time in seconds'',
      cfg_labelNames = [''method'', ''endpoint'', ''status''],
      cfg_buckets = [1 / 10, 1 / 2, 1, 2, 5, 50, 100, 200, 500, 1000]\<rparr>"

text \<open>\<open>src/unnamed/part_000\<close>, lines 15 to 26.\<close>

definition requestCounter_part :: counter_config where
  "requestCounter_part =
     \<lparr>cfg_name = ''http_requests_total'',
      cfg_help = ''Total number of HTTP requests made'',
      cfg_labelNames = [''method'', ''endpoint'', ''status'']\<rparr>"

definition responseTimeHistogram_part :: histogram_config where
  "responseTimeHistogram_part =
     \<lparr>cfg_name = ''http_response_time_seconds'',
      cfg_help = ''HTTP response time in seconds'',
      cfg_labelNames = [''method'', ''endpoint'', ''status''],
      cfg_buckets = [1 / 10, 1 / 2, 1, 2, 5, 50, 100, 200, 500, 1000]\<rparr>"

type_synonym counter = "labels \<rightharpoonup> nat"

text \<open>
  Modelled from the spec: the counter of the metrics library (not part of the sources).
  \<open>incrementCounter\<close> creates the zero-valued series for an unseen label combination, then
  increments it.
\<close>

definition incrementCounter :: "labels \<Rightarrow> counter \<Rightarrow> counter" where
  "incrementCounter l c = c(l \<mapsto> (case c l of None \<Rightarrow> 0 | Some n \<Rightarrow> n) + 1)"

record series =
  h_count :: nat
  h_sum :: rat
  h_buckets :: "(rat \<times> nat) list"

type_synonym histogram = "labels \<rightharpoonup> series"

definition new_series :: "rat list \<Rightarrow> series" where
  "new_series bounds = \<lparr>h_count = 0, h_sum = 0, h_buckets = map (\<lambda>b. (b, 0)) bounds\<rparr>"

text \<open>
  Modelled from the spec: the histogram of the metrics library (not part of the sources).
  \<open>observeHistogram\<close> increments count, adds value to sum, and increments every bucket
  whose bound is at least the value; the series of an unseen label combination starts at
  zero with the registered bounds.
\<close>

definition observe_series :: "rat \<Rightarrow> series \<Rightarrow> series" where
  "observe_series v s =
     \<lparr>h_count = h_count s + 1, h_sum = h_sum s + v,
      h_buckets = map (\<lambda>(b, n). (b, if v \<le> b then n + 1 else n)) (h_buckets s)\<rparr>"

definition observeHistogram :: "rat list \<Rightarrow> labels \<Rightarrow> rat \<Rightarrow> histogram \<Rightarrow> histogram" where
  "observeHistogram bounds l v h =
     h(l \<mapsto> observe_series v (case h l of None \<Rightarrow> new_series bounds | Some s \<Rightarrow> s))"

datatype bound = Le rat | PlusInf

text \<open>
  Modelled from the spec: the exposition reports the finite buckets in the order of their
  bounds and then a \<open>+Inf\<close> bucket equal to the total count.
\<close>

definition exposition_buckets :: "series \<Rightarrow> (bound \<times> nat) list" where
  "exposition_buckets s = map (\<lambda>(b, n). (Le b, n)) (h_buckets s) @ [(PlusInf, h_count s)]"

section \<open>The logger\<close>

datatype level = Error | Info

record log_record =
  level :: level
  message :: string
  meta :: "(string \<times> json) list"

section \<open>Calls to the registry and the logger, and the process state\<close>

datatype call = Inc labels | Observe labels rat | Log log_record

record world =
  requestCounter :: counter
  responseTimeHistogram :: histogram
  logged :: "log_record list"
  draws :: nat

definition initial :: world where
  "initial = \<lparr>requestCounter = Map.empty, responseTimeHistogram = Map.empty,
              logged = [], draws = 0\<rparr>"

fun exec :: "histogram_config \<Rightarrow> world \<Rightarrow> call \<Rightarrow> world" where
  "exec cfg w (Inc l) = w\<lparr>requestCounter := incrementCounter l (requestCounter w)\<rparr>"
| "exec cfg w (Observe l v) =
     w\<lparr>responseTimeHistogram := observeHistogram (cfg_buckets cfg) l v (responseTimeHistogram w)\<rparr>"
| "exec cfg w (Log r) = w\<lparr>logged := logged w @ [r]\<rparr>"

definition run_calls :: "histogram_config \<Rightarrow> call list \<Rightarrow> world \<Rightarrow> world" where
  "run_calls cfg cs w = foldl (exec cfg) w cs"

section \<open>Dates and clocks\<close>

text \<open>
  A reading of \<open>new Date()\<close>, broken down into calendar fields (of a year with four
  digits). \<open>toISOString\<close> is the JavaScript method, which writes the fields of the date in
  UTC; \<open>format_YMD_HMS\<close> is the pattern \<open>YYYY-MM-DD HH:mm:ss\<close> that \<open>src/index.js\<close> gives
  to the logger's timestamp format, which writes the fields of the date in local time.
\<close>

record date =
  year :: nat
  month :: nat
  day :: nat
  hour :: nat
  minute :: nat
  second :: nat
  millisecond :: nat

definition pad2 :: "nat \<Rightarrow> string" where
  "pad2 n = [digit (n div 10), digit n]"

definition pad3 :: "nat \<Rightarrow> string" where
  "pad3 n = [digit (n div 100), digit (n div 10), digit n]"

definition pad4 :: "nat \<Rightarrow> string" where
  "pad4 n = [digit (n div 1000), digit (n div 100), digit (n div 10), digit n]"

definition toISOString :: "date \<Rightarrow> string" where
  "toISOString d =
     pad4 (year d) @ ''-'' @ pad2 (month d) @ ''-'' @ pad2 (day d) @ ''T'' @
     pad2 (hour d) @ '':'' @ pad2 (minute d) @ '':'' @ pad2 (second d) @ ''.'' @
     pad3 (millisecond d) @ ''Z''"

definition format_YMD_HMS :: "date \<Rightarrow> string" where
  "format_YMD_HMS d =
     pad4 (year d) @ ''-'' @ pad2 (month d) @ ''-'' @ pad2 (day d) @ '' '' @
     pad2 (hour d) @ '':'' @ pad2 (minute d) @ '':'' @ pad2 (second d)"

text \<open>
  What happens to the clocks between two instants, in milliseconds: time elapses, or the
  wall clock is set (forwards or backwards). \<open>Date.now()\<close> reads the wall clock, which
  both kinds of event move; a monotonic clock moves with elapsed time only.
\<close>

datatype clock_event = Elapse nat | Adjust int

fun Date_now_after :: "int \<Rightarrow> clock_event list \<Rightarrow> int" where
  "Date_now_after t [] = t"
| "Date_now_after t (Elapse n # es) = Date_now_after (t + int n) es"
| "Date_now_after t (Adjust d # es) = Date_now_after (t + d) es"

fun monotonic_elapsed :: "clock_event list \<Rightarrow> nat" where
  "monotonic_elapsed [] = 0"
| "monotonic_elapsed (Elapse n # es) = n + monotonic_elapsed es"
| "monotonic_elapsed (Adjust d # es) = monotonic_elapsed es"

text \<open>
  The surroundings of one request: the wall clock at entry, what happens to the clocks
  until the response has finished (besides the handler's own delay), and the reading of
  \<open>new Date()\<close> in the finish callback.
\<close>

record env =
  entry_now :: int
  during :: "clock_event list"
  finish_date :: date

section \<open>Serialization of log records\<close>

definition level_name :: "level \<Rightarrow> string" where
  "level_name l = (case l of Error \<Rightarrow> ''error'' | Info \<Rightarrow> ''info'')"

fun set_key :: "string \<Rightarrow> json \<Rightarrow> (string \<times> json) list \<Rightarrow> (string \<times> json) list" where
  "set_key k v [] = [(k, v)]"
| "set_key k v (p # ps) = (if fst p = k then (k, v) # ps else p # set_key k v ps)"

text \<open>
  The logger's \<open>info\<close> object of a call \<open>logger.info(message, meta)\<close>: the metadata, with
  \<open>level\<close> and \<open>message\<close> assigned after it. This is what the library builds for a message
  without format tokens and metadata without a key \<open>message\<close>, as in every call of this
  program.
\<close>

definition make_info :: "log_record \<Rightarrow> (string \<times> json) list" where
  "make_info r =
     set_key ''message'' (JStr (message r))
       (set_key ''level'' (JStr (level_name (level r))) (meta r))"

text \<open>The formats of the logging library: each one transforms the \<open>info\<close> object.\<close>

definition format_timestamp :: "string \<Rightarrow> (string \<times> json) list \<Rightarrow> (string \<times> json) list" where
  "format_timestamp now info = set_key ''timestamp'' (JStr now) info"

definition colour :: "string \<Rightarrow> string" where
  "colour l =
     (if l = ''error'' then CHR 0x1B # ''[31m'' @ l @ CHR 0x1B # ''[39m''
      else if l = ''info'' then CHR 0x1B # ''[32m'' @ l @ CHR 0x1B # ''[39m''
      else l)"

definition format_colorize :: "(string \<times> json) list \<Rightarrow> (string \<times> json) list" where
  "format_colorize info =
     (case map_of info ''level'' of
        Some (JStr l) \<Rightarrow> set_key ''level'' (JStr (colour l)) info
      | _ \<Rightarrow> info)"

definition interpolate :: "(string \<times> json) list \<Rightarrow> string \<Rightarrow> string" where
  "interpolate info k =
     (case map_of info k of
        None \<Rightarrow> ''undefined''
      | Some (JStr s) \<Rightarrow> s
      | Some v \<Rightarrow> stringify v)"

text \<open>
  \<open>src/index.js\<close>, lines 31 to 37: timestamp with the pattern, colorize, and the
  \<open>printf\<close> template, whose parameter list takes \<open>timestamp\<close>, \<open>level\<close> and \<open>message\<close>
  out of the \<open>info\<close> object and leaves the rest as \<open>meta\<close>.
\<close>

definition rest_meta :: "(string \<times> json) list \<Rightarrow> (string \<times> json) list" where
  "rest_meta info = filter (\<lambda>(k, v). k \<notin> {''timestamp'', ''level'', ''message''}) info"

definition printf_index :: "(string \<times> json) list \<Rightarrow> string" where
  "printf_index info =
     (let meta = rest_meta info
      in interpolate info ''timestamp'' @ '' ['' @ interpolate info ''level'' @ '']: '' @
         interpolate info ''message'' @ '' '' @
         (if length meta \<noteq> 0 then stringify (JObj meta) else []))"

definition info_index :: "date \<Rightarrow> log_record \<Rightarrow> (string \<times> json) list" where
  "info_index now r = format_colorize (format_timestamp (format_YMD_HMS now) (make_info r))"

definition serialize_index :: "date \<Rightarrow> log_record \<Rightarrow> string" where
  "serialize_index now r = printf_index (info_index now r)"

text \<open>
  \<open>src/unnamed/part_000\<close>, line 30: timestamp (ISO by default) and json. The json format
  writes the keys of the \<open>info\<close> object in the order that the library's version arranges
  them in (as inserted, or sorted by key); the arrangement is a parameter.
\<close>

definition info_part :: "date \<Rightarrow> log_record \<Rightarrow> (string \<times> json) list" where
  "info_part now r = format_timestamp (toISOString now) (make_info r)"

definition format_json ::
  "((string \<times> json) list \<Rightarrow> (string \<times> json) list) \<Rightarrow> (string \<times> json) list \<Rightarrow> string" where
  "format_json arrange info = stringify (JObj (arrange info))"

definition serialize_part ::
  "((string \<times> json) list \<Rightarrow> (string \<times> json) list) \<Rightarrow> date \<Rightarrow> log_record \<Rightarrow> string" where
  "serialize_part arrange now r = format_json arrange (info_part now r)"

section \<open>Requests, responses and the router\<close>

record request =
  req_method :: string
  req_path :: string

text \<open>
  The body is the text that the handler hands to the response. \<open>RegisterMetrics\<close> stands
  for the text of \<open>promClient.register.metrics()\<close>, \<open>FinalHandler\<close> for the page of the
  framework when no route answers, \<open>Allow\<close> for its automatic answer to \<open>OPTIONS\<close>.
  \<open>delay_ms\<close> is the time that the handler lets pass with \<open>setTimeout\<close> before it
  answers. \<open>res.json\<close> answers with the JSON text of an object; the status is 200 unless
  \<open>res.status\<close> has set it.
\<close>

datatype body = JsonText string | RegisterMetrics | FinalHandler | Allow string

record response =
  statusCode :: nat
  body :: body
  delay_ms :: nat

definition res_json :: "nat \<Rightarrow> nat \<Rightarrow> json \<Rightarrow> response" where
  "res_json code waited obj =
     \<lparr>statusCode = code, body = JsonText (stringify obj), delay_ms = waited\<rparr>"

text \<open>
  \<open>Math.random()\<close> returns a double, and the handler compares it with the doubles that the
  literals \<open>0.3\<close> and \<open>0.6\<close> denote (\<open>0x3FD3333333333333\<close> and \<open>0x3FE3333333333333\<close>),
  here with their exact values. The random source is a stream of values; drawing returns
  the next value and counts the draw.
\<close>

definition double_0_3 :: rat where
  "double_0_3 = 5404319552844595 / 2 ^ 54"

definition double_0_6 :: rat where
  "double_0_6 = 5404319552844595 / 2 ^ 53"

definition Math_random :: "(nat \<Rightarrow> rat) \<Rightarrow> nat \<Rightarrow> rat \<times> nat" where
  "Math_random rng n = (rng n, Suc n)"

definition logger_info :: "string \<Rightarrow> (string \<times> json) list \<Rightarrow> call" where
  "logger_info msg m = Log \<lparr>level = Info, message = msg, meta = m\<rparr>"

definition logger_error :: "string \<Rightarrow> (string \<times> json) list \<Rightarrow> call" where
  "logger_error msg m = Log \<lparr>level = Error, message = msg, meta = m\<rparr>"

subsection \<open>The middleware's finish callback\<close>

text \<open>\<open>src/index.js\<close>, lines 58 to 74.\<close>

definition finish_index :: "request \<Rightarrow> nat \<Rightarrow> int \<Rightarrow> int \<Rightarrow> date \<Rightarrow> call list" where
  "finish_index req code start now today =
     (let duration = of_int (now - start) / 1000;
          status = code
      in [Inc \<lparr>l_method = req_method req, l_endpoint = req_path req, l_status = status\<rparr>,
          Observe \<lparr>l_method = req_method req, l_endpoint = req_path req, l_status = status\<rparr> duration,
          logger_info ''Request completed''
            [(''method'', JStr (req_method req)),
             (''endpoint'', JStr (req_path req)),
             (''status'', JNum (of_nat status)),
             (''duration'', JNum duration),
             (''time'', JStr (toISOString today))]])"

text \<open>\<open>src/unnamed/part_000\<close>, lines 41 to 57.\<close>

definition finish_part :: "request \<Rightarrow> nat \<Rightarrow> int \<Rightarrow> int \<Rightarrow> date \<Rightarrow> call list" where
  "finish_part req code start now today =
     (let duration = of_int (now - start) / 1000;
          status = code
      in [Inc \<lparr>l_method = req_method req, l_endpoint = req_path req, l_status = status\<rparr>,
          Observe \<lparr>l_method = req_method req, l_endpoint = req_path req, l_status = status\<rparr> duration,
          logger_info ''Request completed''
            [(''method'', JStr (req_method req)),
             (''endpoint'', JStr (req_path req)),
             (''status'', JNum (of_nat status)),
             (''duration'', JNum duration),
             (''time'', JStr (toISOString today))]])"

subsection \<open>The handlers of \<open>src/index.js\<close>\<close>

text \<open>
  A handler returns the response, its calls to the logger in order, and the number of
  random values drawn so far.
\<close>

type_synonym handler_result = "response \<times> call list \<times> nat"

definition normal_index :: "nat \<Rightarrow> handler_result" where
  "normal_index n =
     (res_json 200 0 (JObj [(''message'', JStr ''This is a normal API response'')]),
      [logger_info ''Normal endpoint called'' []], n)"

definition abnormal_index :: "request \<Rightarrow> (nat \<Rightarrow> rat) \<Rightarrow> nat \<Rightarrow> handler_result" where
  "abnormal_index req rng n =
     (let (random, n') = Math_random rng n;
          called = logger_info ''Abnormal endpoint called'' []
      in if random < double_0_3 then
           (res_json 200 0 (JObj [(''message'', JStr ''Fast response'')]),
            [called, logger_info ''Fast response sent'' []], n')
         else if random < double_0_6 then
           (res_json 500 0 (JObj [(''error'', JStr ''Internal Server Error'')]),
            [called,
             logger_error ''Internal Server Error occurred''
               [(''endpoint'', JStr (req_path req)), (''method'', JStr (req_method req))]], n')
         else
           (res_json 200 3000 (JObj [(''message'', JStr ''Slow response'')]),
            [called, logger_info ''Slow response sent'' []], n'))"

definition metrics_index :: "nat \<Rightarrow> handler_result" where
  "metrics_index n = (\<lparr>statusCode = 200, body = RegisterMetrics, delay_ms = 0\<rparr>, [], n)"

subsection \<open>The handlers of \<open>src/unnamed/part_000\<close>\<close>

definition normal_part :: "nat \<Rightarrow> handler_result" where
  "normal_part n =
     (res_json 200 0 (JObj [(''message'', JStr ''This is a normal API response'')]), [], n)"

definition abnormal_part :: "request \<Rightarrow> (nat \<Rightarrow> rat) \<Rightarrow> nat \<Rightarrow> handler_result" where
  "abnormal_part req rng n =
     (let (random, n') = Math_random rng n
      in if random < double_0_3 then
           (res_json 200 0 (JObj [(''message'', JStr ''Fast response'')]), [], n')
         else if random < double_0_6 then
           (res_json 500 0 (JObj [(''error'', JStr ''Internal Server Error'')]), [], n')
         else
           (res_json 200 3000 (JObj [(''message'', JStr ''Slow response'')]), [], n'))"

definition metrics_part :: "nat \<Rightarrow> handler_result" where
  "metrics_part n = (\<lparr>statusCode = 200, body = RegisterMetrics, delay_ms = 0\<rparr>, [], n)"

subsection \<open>Routing\<close>

text \<open>
  The framework's defaults: a route path matches the request path without regard to
  letter case and with or without one trailing slash; a \<open>get\<close> route also answers
  \<open>HEAD\<close>; \<open>OPTIONS\<close> on a routed path is answered with the allowed methods; every other
  request falls through to the final handler, which answers 404.
\<close>

datatype route = Normal | Abnormal | Metrics

definition routes :: "(string \<times> route) list" where
  "routes = [(''/normal'', Normal), (''/abnormal'', Abnormal), (''/metrics'', Metrics)]"

definition to_lower :: "char \<Rightarrow> char" where
  "to_lower c =
     (case map_of (zip ''ABCDEFGHIJKLMNOPQRSTUVWXYZ'' ''abcdefghijklmnopqrstuvwxyz'') c of
        Some l \<Rightarrow> l
      | None \<Rightarrow> c)"

definition matches :: "string \<Rightarrow> string \<Rightarrow> bool" where
  "matches template path =
     (let p = map to_lower path; t = map to_lower template in p = t \<or> p = t @ ''/'')"

definition find_route :: "string \<Rightarrow> (string \<times> route) option" where
  "find_route path = find (\<lambda>(template, h). matches template path) routes"

definition handles :: "string \<Rightarrow> bool" where
  "handles m = (m = ''GET'' \<or> m = ''HEAD'')"

definition route_template :: "request \<Rightarrow> string option" where
  "route_template req =
     (case find_route (req_path req) of
        None \<Rightarrow> None
      | Some (template, h) \<Rightarrow> if handles (req_method req) then Some template else None)"

definition not_found :: response where
  "not_found = \<lparr>statusCode = 404, body = FinalHandler, delay_ms = 0\<rparr>"

definition options_reply :: response where
  "options_reply = \<lparr>statusCode = 200, body = Allow ''GET,HEAD'', delay_ms = 0\<rparr>"

definition dispatch_index :: "request \<Rightarrow> (nat \<Rightarrow> rat) \<Rightarrow> nat \<Rightarrow> handler_result" where
  "dispatch_index req rng n =
     (case find_route (req_path req) of
        None \<Rightarrow> (not_found, [], n)
      | Some (template, h) \<Rightarrow>
          if handles (req_method req) then
            (case h of
               Normal \<Rightarrow> normal_index n
             | Abnormal \<Rightarrow> abnormal_index req rng n
             | Metrics \<Rightarrow> metrics_index n)
          else if req_method req = ''OPTIONS'' then (options_reply, [], n)
          else (not_found, [], n))"

definition dispatch_part :: "request \<Rightarrow> (nat \<Rightarrow> rat) \<Rightarrow> nat \<Rightarrow> handler_result" where
  "dispatch_part req rng n =
     (case find_route (req_path req) of
        None \<Rightarrow> (not_found, [], n)
      | Some (template, h) \<Rightarrow>
          if handles (req_method req) then
            (case h of
               Normal \<Rightarrow> normal_part n
             | Abnormal \<Rightarrow> abnormal_part req rng n
             | Metrics \<Rightarrow> metrics_part n)
          else if req_method req = ''OPTIONS'' then (options_reply, [], n)
          else (not_found, [], n))"

subsection \<open>One request through the application\<close>

text \<open>
  The middleware is installed first and without a path, so it runs for every request: it
  reads the clock, registers the finish callback and passes on to the router. The handler's
  calls to the logger come first, then those of the finish callback, which runs once the
  response has been handed over. The handler's own delay elapses before the finish.
  \<open>calls\<close> gives the response, the calls of the handler, the calls of the finish callback
  and the count of random draws; \<open>serve\<close> runs the calls on the process state; \<open>run\<close>
  serves requests one after the other, each from its entry to the finish of its response.
\<close>

definition finish_now :: "env \<Rightarrow> response \<Rightarrow> int" where
  "finish_now e res = Date_now_after (entry_now e) (Elapse (delay_ms res) # during e)"

definition calls_index :: "(nat \<Rightarrow> rat) \<Rightarrow> env \<Rightarrow> request \<Rightarrow> nat \<Rightarrow> response \<times> call list \<times> call list \<times> nat" where
  "calls_index rng e req n =
     (let start = entry_now e;
          (res, handler_calls, n') = dispatch_index req rng n
      in (res, handler_calls,
          finish_index req (statusCode res) start (finish_now e res) (finish_date e), n'))"

definition calls_part :: "(nat \<Rightarrow> rat) \<Rightarrow> env \<Rightarrow> request \<Rightarrow> nat \<Rightarrow> response \<times> call list \<times> call list \<times> nat" where
  "calls_part rng e req n =
     (let start = entry_now e;
          (res, handler_calls, n') = dispatch_part req rng n
      in (res, handler_calls,
          finish_part req (statusCode res) start (finish_now e res) (finish_date e), n'))"

definition serve_index :: "(nat \<Rightarrow> rat) \<Rightarrow> env \<Rightarrow> request \<Rightarrow> world \<Rightarrow> response \<times> world" where
  "serve_index rng e req w =
     (let (res, handler_calls, finish_calls, n') = calls_index rng e req (draws w)
      in (res, run_calls responseTimeHistogram_index (handler_calls @ finish_calls)
                 (w\<lparr>draws := n'\<rparr>)))"

definition serve_part :: "(nat \<Rightarrow> rat) \<Rightarrow> env \<Rightarrow> request \<Rightarrow> world \<Rightarrow> response \<times> world" where
  "serve_part rng e req w =
     (let (res, handler_calls, finish_calls, n') = calls_part rng e req (draws w)
      in (res, run_calls responseTimeHistogram_part (handler_calls @ finish_calls)
                 (w\<lparr>draws := n'\<rparr>)))"

fun run_index :: "(nat \<Rightarrow> rat) \<Rightarrow> (env \<times> request) list \<Rightarrow> world \<Rightarrow> world" where
  "run_index rng [] w = w"
| "run_index rng ((e, req) # rest) w = run_index rng rest (snd (serve_index rng e req w))"

fun run_part :: "(nat \<Rightarrow> rat) \<Rightarrow> (env \<times> request) list \<Rightarrow> world \<Rightarrow> world" where
  "run_part rng [] w = w"
| "run_part rng ((e, req) # rest) w = run_part rng rest (snd (serve_part rng e req w))"

section \<open>What the properties speak about\<close>

subsection \<open>Calls\<close>

text \<open>
  Which kind a call is, the log records among calls, and the values a call carries for
  method, endpoint and status, for the endpoint alone, and for the duration.
\<close>

fun is_Inc :: "call \<Rightarrow> bool" where
  "is_Inc (Inc l) = True"
| "is_Inc c = False"

fun is_Observe :: "call \<Rightarrow> bool" where
  "is_Observe (Observe l v) = True"
| "is_Observe c = False"

fun is_Log :: "call \<Rightarrow> bool" where
  "is_Log (Log r) = True"
| "is_Log c = False"

fun records :: "call list \<Rightarrow> log_record list" where
  "records [] = []"
| "records (Log r # cs) = r # records cs"
| "records (c # cs) = records cs"

fun label_values :: "call \<Rightarrow> json option \<times> json option \<times> json option" where
  "label_values (Inc l) =
     (Some (JStr (l_method l)), Some (JStr (l_endpoint l)), Some (JNum (of_nat (l_status l))))"
| "label_values (Observe l v) =
     (Some (JStr (l_method l)), Some (JStr (l_endpoint l)), Some (JNum (of_nat (l_status l))))"
| "label_values (Log r) =
     (map_of (meta r) ''method'', map_of (meta r) ''endpoint'', map_of (meta r) ''status'')"

definition endpoint_of :: "call \<Rightarrow> json option" where
  "endpoint_of c = fst (snd (label_values c))"

fun observed :: "call \<Rightarrow> rat option" where
  "observed (Inc l) = None"
| "observed (Observe l v) = Some v"
| "observed (Log r) =
     (case map_of (meta r) ''duration'' of Some (JNum d) \<Rightarrow> Some d | _ \<Rightarrow> None)"

text \<open>
  A request is recorded once when, among the calls of its handler and of its finish
  callback, there is one counter increment and one histogram observation, and the finish
  callback makes three calls, one of them to the logger, each with the method and path of
  the request and the status of its response.
\<close>

definition request_labels :: "request \<Rightarrow> response \<Rightarrow> json option \<times> json option \<times> json option" where
  "request_labels req res =
     (Some (JStr (req_method req)), Some (JStr (req_path req)),
      Some (JNum (of_nat (statusCode res))))"

definition recorded_once :: "request \<Rightarrow> response \<Rightarrow> call list \<Rightarrow> call list \<Rightarrow> bool" where
  "recorded_once req res handler_calls finish_calls \<longleftrightarrow>
     length (filter is_Inc (handler_calls @ finish_calls)) = 1 \<and>
     length (filter is_Observe (handler_calls @ finish_calls)) = 1 \<and>
     length (filter is_Log finish_calls) = 1 \<and>
     length finish_calls = 3 \<and>
     map label_values finish_calls = replicate 3 (request_labels req res)"

text \<open>
  The calls carry the route template when the request has one and each endpoint value is
  that template.
\<close>

definition labelled_by_template :: "request \<Rightarrow> call list \<Rightarrow> bool" where
  "labelled_by_template req cs =
     (case route_template req of
        None \<Rightarrow> False
      | Some template \<Rightarrow> map endpoint_of cs = replicate (length cs) (Some (JStr template)))"

subsection \<open>States\<close>

text \<open>
  The labels of a request, the reading of a counter and of the count of a histogram (a
  series not yet created reads 0), the duration and the log record that the finish callback
  computes, the log records that a request added, the metrics reflecting a request with a
  status (the counter and the histogram count under the labels of the request are one
  higher), and the metric state of the process.
\<close>

definition labels_of :: "request \<Rightarrow> response \<Rightarrow> labels" where
  "labels_of req res =
     \<lparr>l_method = req_method req, l_endpoint = req_path req, l_status = statusCode res\<rparr>"

definition value_of :: "counter \<Rightarrow> labels \<Rightarrow> nat" where
  "value_of c l = (case c l of None \<Rightarrow> 0 | Some n \<Rightarrow> n)"

definition count_of :: "histogram \<Rightarrow> labels \<Rightarrow> nat" where
  "count_of h l = (case h l of None \<Rightarrow> 0 | Some s \<Rightarrow> h_count s)"

definition duration_of :: "env \<Rightarrow> response \<Rightarrow> rat" where
  "duration_of e res = of_int (finish_now e res - entry_now e) / 1000"

definition completed :: "request \<Rightarrow> response \<Rightarrow> env \<Rightarrow> log_record" where
  "completed req res e =
     \<lparr>level = Info, message = ''Request completed'',
      meta = [(''method'', JStr (req_method req)),
              (''endpoint'', JStr (req_path req)),
              (''status'', JNum (of_nat (statusCode res))),
              (''duration'', JNum (duration_of e res)),
              (''time'', JStr (toISOString (finish_date e)))]\<rparr>"

definition new_records :: "world \<Rightarrow> world \<Rightarrow> log_record list" where
  "new_records w w' = drop (length (logged w)) (logged w')"

definition reflected :: "request \<Rightarrow> nat \<Rightarrow> world \<Rightarrow> world \<Rightarrow> bool" where
  "reflected req code w w' \<longleftrightarrow>
     value_of (requestCounter w')
       \<lparr>l_method = req_method req, l_endpoint = req_path req, l_status = code\<rparr> =
     value_of (requestCounter w)
       \<lparr>l_method = req_method req, l_endpoint = req_path req, l_status = code\<rparr> + 1 \<and>
     count_of (responseTimeHistogram w')
       \<lparr>l_method = req_method req, l_endpoint = req_path req, l_status = code\<rparr> =
     count_of (responseTimeHistogram w)
       \<lparr>l_method = req_method req, l_endpoint = req_path req, l_status = code\<rparr> + 1"

definition metrics_of :: "world \<Rightarrow> counter \<times> histogram" where
  "metrics_of w = (requestCounter w, responseTimeHistogram w)"

subsection \<open>Responses\<close>

text \<open>
  The four JSON responses of the handlers, with their bodies written out.
\<close>

definition fast_response :: response where
  \<open>fast_response =
     \<lparr>statusCode = 200, body = JsonText ''{"message":"Fast response"}'', delay_ms = 0\<rparr>\<close>

definition error_response :: response where
  \<open>error_response =
     \<lparr>statusCode = 500, body = JsonText ''{"error":"Internal Server Error"}'', delay_ms = 0\<rparr>\<close>

definition slow_response :: response where
  \<open>slow_response =
     \<lparr>statusCode = 200, body = JsonText ''{"message":"Slow response"}'', delay_ms = 3000\<rparr>\<close>

definition normal_response :: response where
  \<open>normal_response =
     \<lparr>statusCode = 200, body = JsonText ''{"message":"This is a normal API response"}'',
      delay_ms = 0\<rparr>\<close>

subsection \<open>Clocks\<close>

text \<open>
  The elapsed time of a request on a monotonic clock, in seconds; whether the wall clock
  was left alone; and the sum of the adjustments made to it, in milliseconds.
\<close>

definition monotonic_duration :: "env \<Rightarrow> response \<Rightarrow> rat" where
  "monotonic_duration e res =
     of_nat (monotonic_elapsed (Elapse (delay_ms res) # during e)) / 1000"

fun unadjusted :: "clock_event list \<Rightarrow> bool" where
  "unadjusted [] = True"
| "unadjusted (Elapse n # es) = unadjusted es"
| "unadjusted (Adjust d # es) = False"

fun net_adjustment :: "clock_event list \<Rightarrow> int" where
  "net_adjustment [] = 0"
| "net_adjustment (Elapse n # es) = net_adjustment es"
| "net_adjustment (Adjust d # es) = d + net_adjustment es"

subsection \<open>Sequences of observations\<close>

text \<open>
  A sequence of observations on the registry, the values observed under one label
  combination, and the series that the contract describes for them: the count is their
  number, the sum is their sum, and each bucket counts the values that are at most its
  bound. Bucket counts are cumulative when a bucket with a larger bound never counts
  less, where every bound is below \<open>+Inf\<close>.
\<close>

definition observe_all :: "rat list \<Rightarrow> (labels \<times> rat) list \<Rightarrow> histogram \<Rightarrow> histogram" where
  "observe_all bounds obs h = foldl (\<lambda>h (l, v). observeHistogram bounds l v h) h obs"

definition values_at :: "labels \<Rightarrow> (labels \<times> rat) list \<Rightarrow> rat list" where
  "values_at l obs = map snd (filter (\<lambda>(l', v). l' = l) obs)"

definition tally :: "rat list \<Rightarrow> rat list \<Rightarrow> series" where
  "tally bounds vs =
     \<lparr>h_count = length vs, h_sum = sum_list vs,
      h_buckets = map (\<lambda>b. (b, length (filter (\<lambda>v. v \<le> b) vs))) bounds\<rparr>"

fun le_bound :: "bound \<Rightarrow> bound \<Rightarrow> bool" where
  "le_bound (Le a) (Le b) = (a \<le> b)"
| "le_bound b PlusInf = True"
| "le_bound PlusInf (Le b) = False"

definition cumulative :: "(bound \<times> nat) list \<Rightarrow> bool" where
  "cumulative bs \<longleftrightarrow>
     list_all (\<lambda>(b, n). list_all (\<lambda>(b', n'). le_bound b b' \<longrightarrow> n \<le> n') bs) bs"

subsection \<open>Serialized records\<close>

text \<open>
  The shape of an ISO-8601 date and time in the extended format, with or without
  milliseconds and the UTC designator: in a pattern, \<open>d\<close> stands for a digit and every
  other character for itself. A text has the shape of a JSON object when it opens and
  closes with a brace. A record is serialized as a keyed structure with an ISO-8601
  timestamp when its text is the JSON text of its keys and values and the key
  \<open>timestamp\<close> holds such a date.
\<close>

definition is_digit :: "char \<Rightarrow> bool" where
  "is_digit c \<longleftrightarrow> c \<in> set ''0123456789''"

fun shape :: "string \<Rightarrow> string \<Rightarrow> bool" where
  "shape [] [] = True"
| "shape (p # ps) (c # cs) = ((if p = CHR ''d'' then is_digit c else c = p) \<and> shape ps cs)"
| "shape ps cs = False"

definition iso8601 :: "string \<Rightarrow> bool" where
  "iso8601 s \<longleftrightarrow>
     shape ''dddd-dd-ddTdd:dd:dd.dddZ'' s \<or> shape ''dddd-dd-ddTdd:dd:ddZ'' s \<or>
     shape ''dddd-dd-ddTdd:dd:dd.ddd'' s \<or> shape ''dddd-dd-ddTdd:dd:dd'' s"

definition json_object_text :: "string \<Rightarrow> bool" where
  "json_object_text s \<longleftrightarrow> s \<noteq> [] \<and> hd s = CHR ''{'' \<and> last s = CHR ''}''"

definition keyed_with_timestamp :: "(string \<times> json) list \<Rightarrow> string \<Rightarrow> bool" where
  "keyed_with_timestamp info s \<longleftrightarrow>
     s = stringify (JObj info) \<and> json_object_text s \<and>
     (case map_of info ''timestamp'' of Some (JStr t) \<Rightarrow> iso8601 t | _ \<Rightarrow> False)"

subsection \<open>Sample inputs\<close>

text \<open>
  A date, the surroundings of a request that takes 20 milliseconds, and of one during
  which the wall clock is set back by an hour, and of one during which it is set forward
  and back by the same amount; requests with the method \<open>GET\<close>; the calls
  of \<open>GET /abnormal\<close> when it answers 500; observations and the series they come to; a
  sequence of requests; and the record of \<open>logger.info('Normal endpoint called')\<close>.
\<close>

definition sample_date :: date where
  "sample_date =
     \<lparr>year = 2024, month = 1, day = 2, hour = 3, minute = 4, second = 5, millisecond = 6\<rparr>"

definition sample_env :: env where
  "sample_env = \<lparr>entry_now = 1000, during = [Elapse 20], finish_date = sample_date\<rparr>"

definition set_back_env :: env where
  "set_back_env =
     \<lparr>entry_now = 1000, during = [Elapse 20, Adjust (- 3600000)], finish_date = sample_date\<rparr>"

definition cancelling_env :: env where
  "cancelling_env =
     \<lparr>entry_now = 1000, during = [Adjust 5, Elapse 20, Adjust (- 5)], finish_date = sample_date\<rparr>"

definition get :: "string \<Rightarrow> request" where
  "get path = \<lparr>req_method = ''GET'', req_path = path\<rparr>"

definition sample_handler_calls :: "call list" where
  "sample_handler_calls =
     [logger_info ''Abnormal endpoint called'' [],
      logger_error ''Internal Server Error occurred''
        [(''endpoint'', JStr ''/abnormal''), (''method'', JStr ''GET'')]]"

definition sample_finish_calls :: "call list" where
  "sample_finish_calls =
     [Inc \<lparr>l_method = ''GET'', l_endpoint = ''/abnormal'', l_status = 500\<rparr>,
      Observe \<lparr>l_method = ''GET'', l_endpoint = ''/abnormal'', l_status = 500\<rparr> (1 / 50),
      logger_info ''Request completed''
        [(''method'', JStr ''GET''), (''endpoint'', JStr ''/abnormal''),
         (''status'', JNum 500), (''duration'', JNum (1 / 50)),
         (''time'', JStr ''2024-01-02T03:04:05.006Z'')]]"

definition sample_labels :: labels where
  "sample_labels = \<lparr>l_method = ''GET'', l_endpoint = ''/abnormal'', l_status = 200\<rparr>"

definition sample_observations :: "(labels \<times> rat) list" where
  "sample_observations =
     [(sample_labels, 3 / 1000),
      (\<lparr>l_method = ''GET'', l_endpoint = ''/abnormal'', l_status = 500\<rparr>, 4),
      (sample_labels, 3001 / 1000),
      (sample_labels, 2000)]"

definition sample_series :: series where
  "sample_series =
     \<lparr>h_count = 3, h_sum = 2003004 / 1000,
      h_buckets = [(1 / 10, 1), (1 / 2, 1), (1, 1), (2, 1), (5, 2), (50, 2), (100, 2),
                   (200, 2), (500, 2), (1000, 2)]\<rparr>"

definition sample_requests :: "(env \<times> request) list" where
  "sample_requests =
     [(sample_env, get ''/normal''), (sample_env, get ''/abnormal''),
      (sample_env, get ''/abnormal''), (sample_env, get ''/users/42'')]"

definition called_record :: log_record where
  "called_record = \<lparr>level = Info, message = ''Normal endpoint called'', meta = []\<rparr>"

section \<open>Properties\<close>

subsection \<open>Evaluating the router and the response bodies\<close>

lemma find_route_normal: "find_route ''/normal'' = Some (''/normal'', Normal)"
  by (simp add: find_route_def routes_def matches_def to_lower_def)

lemma find_route_abnormal: "find_route ''/abnormal'' = Some (''/abnormal'', Abnormal)"
  by (simp add: find_route_def routes_def matches_def to_lower_def)

lemma find_route_metrics: "find_route ''/metrics'' = Some (''/metrics'', Metrics)"
  by (simp add: find_route_def routes_def matches_def to_lower_def)

lemma find_route_slash: "find_route ''/normal/'' = Some (''/normal'', Normal)"
  by (simp add: find_route_def routes_def matches_def to_lower_def)

lemma find_route_users: "find_route ''/users/42'' = None"
  by (simp add: find_route_def routes_def matches_def to_lower_def)

lemma dispatch_index_metrics:
  "dispatch_index (get ''/metrics'') rng n =
     (\<lparr>statusCode = 200, body = RegisterMetrics, delay_ms = 0\<rparr>, [], n)"
  by (simp add: dispatch_index_def get_def find_route_metrics handles_def metrics_index_def)

lemma dispatch_part_metrics:
  "dispatch_part (get ''/metrics'') rng n =
     (\<lparr>statusCode = 200, body = RegisterMetrics, delay_ms = 0\<rparr>, [], n)"
  by (simp add: dispatch_part_def get_def find_route_metrics handles_def metrics_part_def)

lemma dispatch_unrouted:
  assumes "find_route (req_path req) = None"
  shows "dispatch_index req rng n = (not_found, [], n)" and "dispatch_part req rng n = (not_found, [], n)"
  using assms by (simp_all add: dispatch_index_def dispatch_part_def)

lemma res_json_fast: "res_json 200 0 (JObj [(''message'', JStr ''Fast response'')]) = fast_response"
  by (simp add: res_json_def fast_response_def quote_def commas_def)

lemma res_json_error:
  "res_json 500 0 (JObj [(''error'', JStr ''Internal Server Error'')]) = error_response"
  by (simp add: res_json_def error_response_def quote_def commas_def)

lemma res_json_slow:
  "res_json 200 3000 (JObj [(''message'', JStr ''Slow response'')]) = slow_response"
  by (simp add: res_json_def slow_response_def quote_def commas_def)

lemma res_json_normal:
  "res_json 200 0 (JObj [(''message'', JStr ''This is a normal API response'')]) = normal_response"
  by (simp add: res_json_def normal_response_def quote_def commas_def)

lemmas res_json_eval = res_json_fast res_json_error res_json_slow res_json_normal

subsection \<open>What the handlers and the finish callback call\<close>

lemma handlers_index_log_only:
  "dispatch_index req rng n = (res, hc, n') \<Longrightarrow> filter is_Log hc = hc"
  by (auto simp: dispatch_index_def normal_index_def abnormal_index_def metrics_index_def
      Math_random_def logger_info_def logger_error_def Let_def
      split: option.splits prod.splits if_splits route.splits)

lemma handlers_part_silent:
  "dispatch_part req rng n = (res, hc, n') \<Longrightarrow> hc = []"
  by (auto simp: dispatch_part_def normal_part_def abnormal_part_def metrics_part_def
      Math_random_def Let_def
      split: option.splits prod.splits if_splits route.splits)

lemma log_only_no_metric:
  "filter is_Log hc = hc \<Longrightarrow> filter is_Inc hc = [] \<and> filter is_Observe hc = []"
proof (induction hc)
  case Nil
  then show ?case by simp
next
  case (Cons c cs)
  have "length (filter is_Log cs) \<le> length cs" by simp
  with Cons show ?case
    by (cases c) (auto split: if_splits dest: arg_cong [where f = length])
qed

lemma finish_index_shape:
  "recorded_once req res [] (finish_index req (statusCode res) start now today)"
  by (simp add: recorded_once_def finish_index_def logger_info_def request_labels_def Let_def
      numeral_3_eq_3)

lemma finish_part_shape:
  "recorded_once req res [] (finish_part req (statusCode res) start now today)"
  by (simp add: recorded_once_def finish_part_def logger_info_def request_labels_def Let_def
      numeral_3_eq_3)

subsection \<open>A concrete request: \<open>GET /abnormal\<close> with the random value 0.5\<close>

lemma calls_index_abnormal_error:
  "calls_index (\<lambda>i. 1 / 2) sample_env (get ''/abnormal'') 0 =
     (error_response, sample_handler_calls, sample_finish_calls, 1)"
  by (simp add: calls_index_def get_def dispatch_index_def find_route_abnormal handles_def
      abnormal_index_def Math_random_def double_0_3_def double_0_6_def Let_def res_json_eval finish_index_def
      finish_now_def sample_env_def error_response_def sample_date_def toISOString_def
      pad2_def pad3_def pad4_def digit_def sample_handler_calls_def sample_finish_calls_def)

lemma calls_part_abnormal_error:
  "calls_part (\<lambda>i. 1 / 2) sample_env (get ''/abnormal'') 0 =
     (error_response, [], sample_finish_calls, 1)"
  by (simp add: calls_part_def get_def dispatch_part_def find_route_abnormal handles_def
      abnormal_part_def Math_random_def double_0_3_def double_0_6_def Let_def res_json_eval finish_part_def
      finish_now_def sample_env_def error_response_def sample_date_def toISOString_def
      pad2_def pad3_def pad4_def digit_def sample_finish_calls_def)

subsection \<open>Claim C1\<close>

text \<open>
  C1. For every request that completes, the finish callback of the middleware makes
  exactly one counter increment, exactly one histogram observation and exactly one call to
  the logger, and the three carry the same values for method, endpoint and status: those
  of the request and of its response. The handlers make no call to the registry, so these
  are the only metric updates of the request. This holds in both source files.
\<close>

theorem finish_records_once:
  "(calls_index rng e req n = (res, hc, fc, n') \<longrightarrow> recorded_once req res hc fc) \<and>
   (calls_part rng e req n = (res, hc, fc, n') \<longrightarrow> recorded_once req res hc fc)"
proof (intro conjI impI)
  assume a: "calls_index rng e req n = (res, hc, fc, n')"
  then have d: "dispatch_index req rng n = (res, hc, n')"
    and f: "fc = finish_index req (statusCode res) (entry_now e) (finish_now e res) (finish_date e)"
    by (auto simp: calls_index_def Let_def split: prod.splits)
  from handlers_index_log_only [OF d] log_only_no_metric
  have "filter is_Inc hc = []" "filter is_Observe hc = []" by blast+
  with finish_index_shape [of req res "entry_now e" "finish_now e res" "finish_date e"] f
  show "recorded_once req res hc fc" by (simp add: recorded_once_def)
next
  assume a: "calls_part rng e req n = (res, hc, fc, n')"
  then have d: "dispatch_part req rng n = (res, hc, n')"
    and f: "fc = finish_part req (statusCode res) (entry_now e) (finish_now e res) (finish_date e)"
    by (auto simp: calls_part_def Let_def split: prod.splits)
  from handlers_part_silent [OF d]
  have "filter is_Inc hc = []" "filter is_Observe hc = []" by simp_all
  with finish_part_shape [of req res "entry_now e" "finish_now e res" "finish_date e"] f
  show "recorded_once req res hc fc" by (simp add: recorded_once_def)
qed

theorem finish_records_once_witness:
  "calls_index (\<lambda>i. 1 / 2) sample_env (get ''/abnormal'') 0 =
     (error_response, sample_handler_calls, sample_finish_calls, 1) \<and>
   recorded_once (get ''/abnormal'') error_response sample_handler_calls sample_finish_calls \<and>
   calls_part (\<lambda>i. 1 / 2) sample_env (get ''/abnormal'') 0 =
     (error_response, [], sample_finish_calls, 1) \<and>
   recorded_once (get ''/abnormal'') error_response [] sample_finish_calls"
  using finish_records_once [THEN conjunct1, rule_format, OF calls_index_abnormal_error]
    finish_records_once [THEN conjunct2, rule_format, OF calls_part_abnormal_error]
    calls_index_abnormal_error calls_part_abnormal_error
  by simp

subsection \<open>The thresholds of the random outcome\<close>

lemma double_thresholds:
  "double_0_3 < double_0_6"
  "double_0_3 < 3 / 10" "3 / 10 - double_0_3 < 1 / 2 ^ 54"
  "double_0_6 < 6 / 10" "6 / 10 - double_0_6 < 1 / 2 ^ 53"
  by (simp_all add: double_0_3_def double_0_6_def)

subsection \<open>Claim C2\<close>

text \<open>
  C2. Every invocation of \<open>GET /abnormal\<close> draws exactly one random value (the count of
  draws goes from \<open>n\<close> to \<open>Suc n\<close>, and the value is \<open>rng n\<close>), and that value alone
  selects the outcome: below 0.3 the fast 200 JSON success, from 0.3 and below 0.6 the 500
  JSON error, from 0.6 on the 200 JSON success after the fixed delay of 3000 milliseconds,
  where 0.3 and 0.6 are the doubles of the source's literals. This holds for every value,
  so for every value of \<open>[0, 1)\<close>, and in both source files.
\<close>

theorem abnormal_bands:
  assumes "req_method req = ''GET''" and "req_path req = ''/abnormal''"
    and "dispatch_index req rng n = (res, hc, n')"
    and "dispatch_part req rng n = (res2, hc2, n2)"
  shows "n' = Suc n \<and> n2 = Suc n \<and>
         (rng n < double_0_3 \<longrightarrow> res = fast_response \<and> res2 = fast_response) \<and>
         (double_0_3 \<le> rng n \<and> rng n < double_0_6 \<longrightarrow>
            res = error_response \<and> res2 = error_response) \<and>
         (double_0_6 \<le> rng n \<longrightarrow> res = slow_response \<and> res2 = slow_response)"
  using assms double_thresholds(1)
  by (auto simp: dispatch_index_def dispatch_part_def find_route_abnormal handles_def
      abnormal_index_def abnormal_part_def Math_random_def Let_def res_json_eval
      split: if_splits)

theorem abnormal_bands_witness:
  "fst (dispatch_index (get ''/abnormal'') (\<lambda>i. if i = 7 then 1 / 8 else 0) 7) = fast_response \<and>
   fst (dispatch_part (get ''/abnormal'') (\<lambda>i. if i = 7 then 1 / 8 else 0) 7) = fast_response \<and>
   fst (dispatch_index (get ''/abnormal'') (\<lambda>i. if i = 7 then 1 / 2 else 0) 7) = error_response \<and>
   fst (dispatch_part (get ''/abnormal'') (\<lambda>i. if i = 7 then 1 / 2 else 0) 7) = error_response \<and>
   fst (dispatch_index (get ''/abnormal'') (\<lambda>i. if i = 7 then 5 / 8 else 0) 7) = slow_response \<and>
   fst (dispatch_part (get ''/abnormal'') (\<lambda>i. if i = 7 then 5 / 8 else 0) 7) = slow_response \<and>
   snd (snd (dispatch_index (get ''/abnormal'') (\<lambda>i. if i = 7 then 5 / 8 else 0) 7)) = 8 \<and>
   snd (snd (dispatch_part (get ''/abnormal'') (\<lambda>i. if i = 7 then 5 / 8 else 0) 7)) = 8"
proof -
  have m: "req_method (get ''/abnormal'') = ''GET''" and p: "req_path (get ''/abnormal'') = ''/abnormal''"
    by (simp_all add: get_def)
  have pair: "\<And>x :: handler_result. x = (fst x, fst (snd x), snd (snd x))" by simp
  show ?thesis
    using abnormal_bands [OF m p pair pair, of "\<lambda>i. if i = 7 then 1 / 8 else 0" 7]
      abnormal_bands [OF m p pair pair, of "\<lambda>i. if i = 7 then 1 / 2 else 0" 7]
      abnormal_bands [OF m p pair pair, of "\<lambda>i. if i = 7 then 5 / 8 else 0" 7]
    by (simp add: double_0_3_def double_0_6_def)
qed

subsection \<open>The effect of one request on the process state\<close>

lemma run_calls_append: "run_calls cfg (xs @ ys) w = run_calls cfg ys (run_calls cfg xs w)"
  by (simp add: run_calls_def)

lemma run_calls_logs:
  "filter is_Log cs = cs \<Longrightarrow> run_calls cfg cs w = w\<lparr>logged := logged w @ records cs\<rparr>"
proof (induction cs arbitrary: w)
  case Nil
  then show ?case by (simp add: run_calls_def)
next
  case (Cons c cs)
  have le: "length (filter is_Log cs) \<le> length cs" by simp
  from Cons.prems obtain r where c: "c = Log r" and rest: "filter is_Log cs = cs"
    using le by (cases c) (auto split: if_splits dest: arg_cong [where f = length])
  have "run_calls cfg (c # cs) w = run_calls cfg cs (exec cfg w c)"
    by (simp add: run_calls_def)
  also have "\<dots> = (exec cfg w c)\<lparr>logged := logged (exec cfg w c) @ records cs\<rparr>"
    by (rule Cons.IH [OF rest])
  finally show ?case by (simp add: c)
qed

lemma run_finish_index:
  "run_calls cfg (finish_index req (statusCode res) (entry_now e) (finish_now e res) (finish_date e)) w =
     w\<lparr>requestCounter := incrementCounter (labels_of req res) (requestCounter w),
       responseTimeHistogram :=
         observeHistogram (cfg_buckets cfg) (labels_of req res) (duration_of e res)
           (responseTimeHistogram w),
       logged := logged w @ [completed req res e]\<rparr>"
  by (simp add: run_calls_def finish_index_def Let_def logger_info_def labels_of_def
      duration_of_def completed_def)

lemma run_finish_part:
  "run_calls cfg (finish_part req (statusCode res) (entry_now e) (finish_now e res) (finish_date e)) w =
     w\<lparr>requestCounter := incrementCounter (labels_of req res) (requestCounter w),
       responseTimeHistogram :=
         observeHistogram (cfg_buckets cfg) (labels_of req res) (duration_of e res)
           (responseTimeHistogram w),
       logged := logged w @ [completed req res e]\<rparr>"
  by (simp add: run_calls_def finish_part_def Let_def logger_info_def labels_of_def
      duration_of_def completed_def)

lemma serve_index_world:
  assumes "dispatch_index req rng (draws w) = (res, hc, n')"
  shows "serve_index rng e req w =
     (res, w\<lparr>requestCounter := incrementCounter (labels_of req res) (requestCounter w),
              responseTimeHistogram :=
                observeHistogram (cfg_buckets responseTimeHistogram_index) (labels_of req res)
                  (duration_of e res) (responseTimeHistogram w),
              logged := logged w @ records hc @ [completed req res e],
              draws := n'\<rparr>)"
  using assms handlers_index_log_only [OF assms]
  by (simp add: serve_index_def calls_index_def Let_def run_calls_append run_calls_logs
      run_finish_index)

lemma serve_part_world:
  assumes "dispatch_part req rng (draws w) = (res, hc, n')"
  shows "serve_part rng e req w =
     (res, w\<lparr>requestCounter := incrementCounter (labels_of req res) (requestCounter w),
              responseTimeHistogram :=
                observeHistogram (cfg_buckets responseTimeHistogram_part) (labels_of req res)
                  (duration_of e res) (responseTimeHistogram w),
              logged := logged w @ [completed req res e],
              draws := n'\<rparr>)"
  using assms handlers_part_silent [OF assms]
  by (simp add: serve_part_def calls_part_def Let_def run_calls_append run_calls_def
      run_finish_part [unfolded run_calls_def])

lemma value_of_increment:
  "value_of (incrementCounter l c) l' = (if l' = l then value_of c l + 1 else value_of c l')"
  by (simp add: value_of_def incrementCounter_def)

lemma count_of_observe:
  "count_of (observeHistogram bounds l v h) l' =
     (if l' = l then count_of h l + 1 else count_of h l')"
  by (simp add: count_of_def observeHistogram_def observe_series_def new_series_def
      split: option.splits)

lemma dispatch_index_normal:
  "dispatch_index (get ''/normal'') rng n = (normal_response, [logger_info ''Normal endpoint called'' []], n)"
  by (simp add: dispatch_index_def get_def find_route_normal handles_def normal_index_def
      res_json_eval)

lemma dispatch_part_normal: "dispatch_part (get ''/normal'') rng n = (normal_response, [], n)"
  by (simp add: dispatch_part_def get_def find_route_normal handles_def normal_part_def
      res_json_eval)

subsection \<open>Claim C3\<close>

text \<open>
  C3. A request \<open>GET /normal\<close> returns status 200 with the body
  \<open>{"message":"This is a normal API response"}\<close>, and afterwards the counter
  \<open>http_requests_total\<close> with the labels method \<open>GET\<close>, endpoint \<open>/normal\<close> and status
  200 reads its prior value plus 1 (a series not yet created reads 0). This holds in both
  source files, from every state.
\<close>

theorem normal_request:
  assumes "serve_index rng e (get ''/normal'') w = (res, w')"
    and "serve_part rng e (get ''/normal'') v = (res2, v')"
  shows \<open>statusCode res = 200 \<and>
         body res = JsonText ''{"message":"This is a normal API response"}'' \<and>
         value_of (requestCounter w') \<lparr>l_method = ''GET'', l_endpoint = ''/normal'', l_status = 200\<rparr> =
           value_of (requestCounter w) \<lparr>l_method = ''GET'', l_endpoint = ''/normal'', l_status = 200\<rparr> + 1 \<and>
         statusCode res2 = 200 \<and>
         body res2 = JsonText ''{"message":"This is a normal API response"}'' \<and>
         value_of (requestCounter v') \<lparr>l_method = ''GET'', l_endpoint = ''/normal'', l_status = 200\<rparr> =
           value_of (requestCounter v) \<lparr>l_method = ''GET'', l_endpoint = ''/normal'', l_status = 200\<rparr> + 1\<close>
proof -
  have l: "labels_of (get ''/normal'') normal_response =
      \<lparr>l_method = ''GET'', l_endpoint = ''/normal'', l_status = 200\<rparr>"
    by (simp add: labels_of_def get_def normal_response_def)
  from assms(1) have "res = normal_response"
    and "requestCounter w' = incrementCounter (labels_of (get ''/normal'') normal_response) (requestCounter w)"
    by (auto simp: serve_index_world [OF dispatch_index_normal])
  moreover from assms(2) have "res2 = normal_response"
    and "requestCounter v' = incrementCounter (labels_of (get ''/normal'') normal_response) (requestCounter v)"
    by (auto simp: serve_part_world [OF dispatch_part_normal])
  ultimately show ?thesis
    by (simp add: l value_of_increment) (simp add: normal_response_def)
qed

theorem normal_request_witness:
  \<open>fst (serve_index (\<lambda>i. 0) sample_env (get ''/normal'') initial) =
     \<lparr>statusCode = 200, body = JsonText ''{"message":"This is a normal API response"}'', delay_ms = 0\<rparr> \<and>
   value_of (requestCounter (snd (serve_index (\<lambda>i. 0) sample_env (get ''/normal'') initial)))
     \<lparr>l_method = ''GET'', l_endpoint = ''/normal'', l_status = 200\<rparr> = 1 \<and>
   fst (serve_part (\<lambda>i. 0) sample_env (get ''/normal'') initial) =
     \<lparr>statusCode = 200, body = JsonText ''{"message":"This is a normal API response"}'', delay_ms = 0\<rparr> \<and>
   value_of (requestCounter (snd (serve_part (\<lambda>i. 0) sample_env (get ''/normal'') initial)))
     \<lparr>l_method = ''GET'', l_endpoint = ''/normal'', l_status = 200\<rparr> = 1\<close>
proof -
  have pair: "\<And>x :: response \<times> world. x = (fst x, snd x)" by simp
  have z: "value_of (requestCounter initial) l = 0" for l
    by (simp add: initial_def value_of_def)
  have d: "delay_ms (fst (serve_index (\<lambda>i. 0) sample_env (get ''/normal'') initial)) = 0"
    "delay_ms (fst (serve_part (\<lambda>i. 0) sample_env (get ''/normal'') initial)) = 0"
    by (simp_all add: serve_index_world [OF dispatch_index_normal]
        serve_part_world [OF dispatch_part_normal] normal_response_def)
  show ?thesis
    using normal_request [OF pair pair, of "\<lambda>i. 0" sample_env initial initial] d
    by (simp add: z response.equality)
qed

subsection \<open>Sequences of observations on the histogram\<close>

lemma observe_all_snoc:
  "observe_all bounds (obs @ [(l, v)]) h = observeHistogram bounds l v (observe_all bounds obs h)"
  by (simp add: observe_all_def)

lemma tally_empty: "tally bounds [] = new_series bounds"
  by (simp add: tally_def new_series_def)

lemma tally_snoc: "tally bounds (vs @ [v]) = observe_series v (tally bounds vs)"
  by (simp add: tally_def observe_series_def comp_def)

lemma observe_all_tally:
  "observe_all bounds obs Map.empty l =
     (if values_at l obs = [] then None else Some (tally bounds (values_at l obs)))"
proof (induction obs rule: rev_induct)
  case Nil
  then show ?case by (simp add: observe_all_def values_at_def)
next
  case (snoc x obs)
  obtain l' v where x: "x = (l', v)" by (cases x)
  show ?case
  proof (cases "l' = l")
    case True
    then show ?thesis
      using snoc
      by (simp add: x observe_all_snoc observeHistogram_def values_at_def tally_snoc
          tally_empty)
  next
    case False
    then show ?thesis
      using snoc by (simp add: x observe_all_snoc observeHistogram_def values_at_def)
  qed
qed

lemma filter_le_mono:
  fixes a b :: rat
  assumes "a \<le> b"
  shows "length (filter (\<lambda>v. v \<le> a) vs) \<le> length (filter (\<lambda>v. v \<le> b) vs)"
  using assms by (induction vs) auto

lemma cumulative_tally: "cumulative (exposition_buckets (tally bounds vs))"
  by (auto simp: cumulative_def exposition_buckets_def tally_def list_all_iff filter_le_mono)

lemma inf_bucket_tally:
  "last (exposition_buckets (tally bounds vs)) = (PlusInf, length vs)"
  by (simp add: exposition_buckets_def tally_def)

lemma sorted_tally:
  "sorted bounds \<Longrightarrow> sorted (map snd (h_buckets (tally bounds vs)))"
  by (simp add: tally_def comp_def sorted_map sorted_wrt_iff_nth_less filter_le_mono)

lemma configured_bounds_sorted:
  "sorted (cfg_buckets responseTimeHistogram_index)"
  "sorted (cfg_buckets responseTimeHistogram_part)"
  by (simp_all add: responseTimeHistogram_index_def responseTimeHistogram_part_def)

subsection \<open>Claim C4\<close>

text \<open>
  C4. The histogram is the metrics library's, modelled from the contract of the spec. For
  the registered bounds of the response-time histogram and any label combination \<open>l\<close>:
  after any sequence of observations on the empty registry, the series of \<open>l\<close>
  exists exactly when a value was observed under \<open>l\<close>, and it is the tally of those
  values: the count is their number, the sum is their sum, and the bucket of each bound
  counts the values that are at most the bound. One more observation under \<open>l\<close>
  increments the count by 1, adds the value to the sum and increments every bucket whose
  bound is at least the value. Hence a bucket with a larger bound never counts less, the
  counts are non-decreasing in the order of the registered bounds, and the \<open>+Inf\<close> bucket of
  the exposition equals the total count.
\<close>

theorem histogram_cumulative:
  assumes "bounds \<in> {cfg_buckets responseTimeHistogram_index, cfg_buckets responseTimeHistogram_part}"
    and "vs = values_at l obs"
  shows "observe_all bounds obs Map.empty l = (if vs = [] then None else Some (tally bounds vs)) \<and>
         observe_all bounds (obs @ [(l, v)]) Map.empty l = Some (observe_series v (tally bounds vs)) \<and>
         h_count (observe_series v (tally bounds vs)) = h_count (tally bounds vs) + 1 \<and>
         h_sum (observe_series v (tally bounds vs)) = h_sum (tally bounds vs) + v \<and>
         h_buckets (observe_series v (tally bounds vs)) =
           map (\<lambda>(b, n). (b, if v \<le> b then n + 1 else n)) (h_buckets (tally bounds vs)) \<and>
         cumulative (exposition_buckets (tally bounds vs)) \<and>
         sorted (map snd (h_buckets (tally bounds vs))) \<and>
         last (exposition_buckets (tally bounds vs)) = (PlusInf, h_count (tally bounds vs))"
proof -
  have sorted: "sorted bounds"
    using assms(1) configured_bounds_sorted by auto
  have snoc: "values_at l (obs @ [(l, v)]) = vs @ [v]"
    by (simp add: assms(2) values_at_def)
  have 1: "observe_all bounds obs Map.empty l = (if vs = [] then None else Some (tally bounds vs))"
    unfolding assms(2) by (rule observe_all_tally)
  have 2: "observe_all bounds (obs @ [(l, v)]) Map.empty l = Some (observe_series v (tally bounds vs))"
    using observe_all_tally [of bounds "obs @ [(l, v)]" l] by (simp add: snoc tally_snoc)
  have 3: "h_count (observe_series v (tally bounds vs)) = h_count (tally bounds vs) + 1"
    and 4: "h_sum (observe_series v (tally bounds vs)) = h_sum (tally bounds vs) + v"
    and 5: "h_buckets (observe_series v (tally bounds vs)) =
           map (\<lambda>(b, n). (b, if v \<le> b then n + 1 else n)) (h_buckets (tally bounds vs))"
    by (simp_all add: observe_series_def)
  have 6: "last (exposition_buckets (tally bounds vs)) = (PlusInf, h_count (tally bounds vs))"
    by (simp add: inf_bucket_tally) (simp add: tally_def)
  from 1 2 3 4 5 6 cumulative_tally [of bounds vs] sorted_tally [OF sorted, of vs]
  show ?thesis by blast
qed

theorem histogram_cumulative_witness:
  "observe_all (cfg_buckets responseTimeHistogram_index) sample_observations Map.empty sample_labels =
     Some sample_series \<and>
   cumulative (exposition_buckets sample_series) \<and>
   sorted (map snd (h_buckets sample_series)) \<and>
   last (exposition_buckets sample_series) = (PlusInf, 3)"
proof -
  have vs: "[3 / 1000, 3001 / 1000, 2000] = values_at sample_labels sample_observations"
    by (simp add: values_at_def sample_observations_def sample_labels_def)
  have t: "tally (cfg_buckets responseTimeHistogram_index) [3 / 1000, 3001 / 1000, 2000] = sample_series"
    by (simp add: tally_def responseTimeHistogram_index_def sample_series_def)
  show ?thesis
    using histogram_cumulative [OF _ vs, of "cfg_buckets responseTimeHistogram_index" 0]
    by (simp add: t) (simp add: sample_series_def)
qed

subsection \<open>The endpoint value of the calls\<close>

lemma endpoints_finish_index:
  "map endpoint_of (finish_index req code start now today) = replicate 3 (Some (JStr (req_path req)))"
  by (simp add: finish_index_def endpoint_of_def logger_info_def Let_def numeral_3_eq_3)

lemma endpoints_finish_part:
  "map endpoint_of (finish_part req code start now today) = replicate 3 (Some (JStr (req_path req)))"
  by (simp add: finish_part_def endpoint_of_def logger_info_def Let_def numeral_3_eq_3)

lemma length_finish:
  "length (finish_index req code start now today) = 3"
  "length (finish_part req code start now today) = 3"
  by (simp_all add: finish_index_def finish_part_def Let_def)

lemma calls_index_finish:
  "calls_index rng e req n = (res, hc, fc, n') \<Longrightarrow>
     dispatch_index req rng n = (res, hc, n') \<and>
     fc = finish_index req (statusCode res) (entry_now e) (finish_now e res) (finish_date e)"
  by (auto simp: calls_index_def Let_def split: prod.splits)

lemma calls_part_finish:
  "calls_part rng e req n = (res, hc, fc, n') \<Longrightarrow>
     dispatch_part req rng n = (res, hc, n') \<and>
     fc = finish_part req (statusCode res) (entry_now e) (finish_now e res) (finish_date e)"
  by (auto simp: calls_part_def Let_def split: prod.splits)

lemma route_template_slash: "route_template (get ''/normal/'') = Some ''/normal''"
  by (simp add: route_template_def get_def find_route_slash handles_def)

lemma dispatch_index_slash:
  "dispatch_index (get ''/normal/'') rng n =
     (normal_response, [logger_info ''Normal endpoint called'' []], n)"
  by (simp add: dispatch_index_def get_def find_route_slash handles_def normal_index_def
      res_json_eval)

lemma dispatch_part_slash: "dispatch_part (get ''/normal/'') rng n = (normal_response, [], n)"
  by (simp add: dispatch_part_def get_def find_route_slash handles_def normal_part_def
      res_json_eval)

subsection \<open>Claim C5\<close>

text \<open>
  C5 as stated fails: the endpoint label is \<open>req.path\<close>, the path as the client wrote it.
  The request \<open>GET /normal/\<close> is answered by the route \<open>/normal\<close> with status 200, and the
  counter increment, the histogram observation and the log record all carry the endpoint
  \<open>/normal/\<close>, not the route template \<open>/normal\<close>. The request \<open>GET /users/42\<close> has no
  route, hence no route template, and is recorded with the endpoint \<open>/users/42\<close>. This is
  so in both source files.
\<close>

theorem endpoint_is_template_counterexample:
  "route_template (get ''/normal/'') = Some ''/normal'' \<and>
   statusCode (fst (calls_index (\<lambda>i. 0) sample_env (get ''/normal/'') 0)) = 200 \<and>
   map endpoint_of (fst (snd (snd (calls_index (\<lambda>i. 0) sample_env (get ''/normal/'') 0)))) =
     [Some (JStr ''/normal/''), Some (JStr ''/normal/''), Some (JStr ''/normal/'')] \<and>
   \<not> labelled_by_template (get ''/normal/'')
       (fst (snd (snd (calls_index (\<lambda>i. 0) sample_env (get ''/normal/'') 0)))) \<and>
   statusCode (fst (calls_part (\<lambda>i. 0) sample_env (get ''/normal/'') 0)) = 200 \<and>
   map endpoint_of (fst (snd (snd (calls_part (\<lambda>i. 0) sample_env (get ''/normal/'') 0)))) =
     [Some (JStr ''/normal/''), Some (JStr ''/normal/''), Some (JStr ''/normal/'')] \<and>
   \<not> labelled_by_template (get ''/normal/'')
       (fst (snd (snd (calls_part (\<lambda>i. 0) sample_env (get ''/normal/'') 0)))) \<and>
   route_template (get ''/users/42'') = None \<and>
   map endpoint_of (fst (snd (snd (calls_index (\<lambda>i. 0) sample_env (get ''/users/42'') 0)))) =
     [Some (JStr ''/users/42''), Some (JStr ''/users/42''), Some (JStr ''/users/42'')] \<and>
   map endpoint_of (fst (snd (snd (calls_part (\<lambda>i. 0) sample_env (get ''/users/42'') 0)))) =
     [Some (JStr ''/users/42''), Some (JStr ''/users/42''), Some (JStr ''/users/42'')]"
proof -
  have u: "find_route (req_path (get ''/users/42'')) = None"
    by (simp add: get_def find_route_users)
  have "route_template (get ''/users/42'') = None"
    by (simp add: route_template_def u)
  then show ?thesis
    by (simp add: calls_index_def calls_part_def dispatch_index_slash dispatch_part_slash
        dispatch_unrouted [OF u] endpoints_finish_index endpoints_finish_part
        labelled_by_template_def route_template_slash normal_response_def length_finish
        numeral_3_eq_3)
      (simp add: get_def)
qed

text \<open>
  C5 as amended: on completion, the middleware uses the raw request path \<open>req.path\<close> as the
  endpoint value of the counter increment, of the histogram observation and of the log
  record, for every request and in both source files. The three values are the route
  template exactly when the request path is spelled as the template is.
\<close>

theorem endpoint_is_request_path:
  "(calls_index rng e req n = (res, hc, fc, n') \<longrightarrow>
      map endpoint_of fc = replicate 3 (Some (JStr (req_path req))) \<and>
      (labelled_by_template req fc \<longleftrightarrow> route_template req = Some (req_path req))) \<and>
   (calls_part rng e req n = (res, hc, fc, n') \<longrightarrow>
      map endpoint_of fc = replicate 3 (Some (JStr (req_path req))) \<and>
      (labelled_by_template req fc \<longleftrightarrow> route_template req = Some (req_path req)))"
proof (intro conjI impI)
  assume "calls_index rng e req n = (res, hc, fc, n')"
  then have fc: "fc = finish_index req (statusCode res) (entry_now e) (finish_now e res) (finish_date e)"
    by (simp add: calls_index_finish)
  show "map endpoint_of fc = replicate 3 (Some (JStr (req_path req)))"
    by (simp add: fc endpoints_finish_index)
  then show "labelled_by_template req fc \<longleftrightarrow> route_template req = Some (req_path req)"
    by (auto simp: labelled_by_template_def fc finish_index_def Let_def numeral_3_eq_3
        split: option.splits)
next
  assume "calls_part rng e req n = (res, hc, fc, n')"
  then have fc: "fc = finish_part req (statusCode res) (entry_now e) (finish_now e res) (finish_date e)"
    by (simp add: calls_part_finish)
  show "map endpoint_of fc = replicate 3 (Some (JStr (req_path req)))"
    by (simp add: fc endpoints_finish_part)
  then show "labelled_by_template req fc \<longleftrightarrow> route_template req = Some (req_path req)"
    by (auto simp: labelled_by_template_def fc finish_part_def Let_def numeral_3_eq_3
        split: option.splits)
qed

theorem endpoint_is_request_path_witness:
  "map endpoint_of sample_finish_calls =
     [Some (JStr ''/abnormal''), Some (JStr ''/abnormal''), Some (JStr ''/abnormal'')] \<and>
   labelled_by_template (get ''/abnormal'') sample_finish_calls \<and>
   route_template (get ''/abnormal'') = Some ''/abnormal''"
proof -
  have t: "route_template (get ''/abnormal'') = Some ''/abnormal''"
    by (simp add: route_template_def get_def find_route_abnormal handles_def)
  show ?thesis
    using endpoint_is_request_path [THEN conjunct1, rule_format, OF calls_index_abnormal_error]
      endpoint_is_request_path [THEN conjunct2, rule_format, OF calls_part_abnormal_error]
    by (simp add: t numeral_3_eq_3) (simp add: get_def)
qed

subsection \<open>The duration of the calls\<close>

lemma Date_now_unadjusted:
  "unadjusted es \<Longrightarrow> Date_now_after t es = t + int (monotonic_elapsed es)"
  by (induction t es rule: Date_now_after.induct) auto

lemma observed_finish_index:
  "map observed (finish_index req code start now today) =
     [None, Some (of_int (now - start) / 1000), Some (of_int (now - start) / 1000)]"
  by (simp add: finish_index_def logger_info_def Let_def)

lemma observed_finish_part:
  "map observed (finish_part req code start now today) =
     [None, Some (of_int (now - start) / 1000), Some (of_int (now - start) / 1000)]"
  by (simp add: finish_part_def logger_info_def Let_def)

lemma Date_now_split:
  "Date_now_after t es = t + int (monotonic_elapsed es) + net_adjustment es"
  by (induction t es rule: Date_now_after.induct) auto

lemma net_adjustment_unadjusted: "unadjusted es \<Longrightarrow> net_adjustment es = 0"
  by (induction es rule: unadjusted.induct) auto

lemma duration_split:
  "duration_of e res = monotonic_duration e res + of_int (net_adjustment (during e)) / 1000"
  by (simp add: duration_of_def monotonic_duration_def finish_now_def Date_now_split
      add_divide_distrib)

lemma duration_unadjusted:
  "unadjusted (during e) \<Longrightarrow> duration_of e res = monotonic_duration e res"
  by (simp add: duration_of_def monotonic_duration_def finish_now_def Date_now_unadjusted)

subsection \<open>Claim C6\<close>

text \<open>
  C6 as stated fails: both timestamps are readings of \<open>Date.now()\<close>, the wall clock. When
  the wall clock is set back by an hour while a request to \<open>GET /normal\<close> takes 20
  milliseconds, the duration recorded is \<open>-3599.98\<close> seconds in both source files; on a
  monotonic clock the request took \<open>0.02\<close> seconds.
\<close>

theorem monotonic_duration_counterexample:
  "map observed (fst (snd (snd (calls_index (\<lambda>i. 0) set_back_env (get ''/normal'') 0)))) =
     [None, Some (- 359998 / 100), Some (- 359998 / 100)] \<and>
   map observed (fst (snd (snd (calls_part (\<lambda>i. 0) set_back_env (get ''/normal'') 0)))) =
     [None, Some (- 359998 / 100), Some (- 359998 / 100)] \<and>
   monotonic_duration set_back_env (fst (calls_index (\<lambda>i. 0) set_back_env (get ''/normal'') 0)) = 2 / 100 \<and>
   monotonic_duration set_back_env (fst (calls_part (\<lambda>i. 0) set_back_env (get ''/normal'') 0)) = 2 / 100"
  by (simp add: calls_index_def calls_part_def dispatch_index_normal dispatch_part_normal
      observed_finish_index observed_finish_part monotonic_duration_def finish_now_def
      set_back_env_def normal_response_def)

text \<open>
  C6 as amended: for every request, the duration recorded at completion (in the histogram
  observation and in the log record) is the reading of \<open>Date.now()\<close> at completion minus
  the reading captured at entry, divided by 1000 to give seconds; both readings are of the
  wall clock. It exceeds the elapsed time of a monotonic clock by the sum of the adjustments
  made to the wall clock while the request is served: the two are equal exactly when those
  adjustments sum to zero, hence whenever the wall clock is not adjusted.
\<close>

theorem duration_is_wall_clock_difference:
  "(calls_index rng e req n = (res, hc, fc, n') \<longrightarrow>
      map observed fc = [None, Some (duration_of e res), Some (duration_of e res)]) \<and>
   (calls_part rng e req n = (res, hc, fc, n') \<longrightarrow>
      map observed fc = [None, Some (duration_of e res), Some (duration_of e res)]) \<and>
   duration_of e res =
     of_int (Date_now_after (entry_now e) (Elapse (delay_ms res) # during e) - entry_now e) / 1000 \<and>
   duration_of e res = monotonic_duration e res + of_int (net_adjustment (during e)) / 1000 \<and>
   (duration_of e res = monotonic_duration e res \<longleftrightarrow> net_adjustment (during e) = 0) \<and>
   (unadjusted (during e) \<longrightarrow> duration_of e res = monotonic_duration e res)"
proof -
  have 1: "calls_index rng e req n = (res, hc, fc, n') \<longrightarrow>
      map observed fc = [None, Some (duration_of e res), Some (duration_of e res)]"
    by (auto simp: observed_finish_index duration_of_def dest!: calls_index_finish)
  have 2: "calls_part rng e req n = (res, hc, fc, n') \<longrightarrow>
      map observed fc = [None, Some (duration_of e res), Some (duration_of e res)]"
    by (auto simp: observed_finish_part duration_of_def dest!: calls_part_finish)
  have 3: "duration_of e res =
     of_int (Date_now_after (entry_now e) (Elapse (delay_ms res) # during e) - entry_now e) / 1000"
    by (simp add: duration_of_def finish_now_def)
  have 4: "duration_of e res = monotonic_duration e res + of_int (net_adjustment (during e)) / 1000"
    by (rule duration_split)
  have 5: "duration_of e res = monotonic_duration e res \<longleftrightarrow> net_adjustment (during e) = 0"
    by (simp add: duration_split)
  have 6: "unadjusted (during e) \<longrightarrow> duration_of e res = monotonic_duration e res"
    by (simp add: 5 net_adjustment_unadjusted)
  from 1 2 3 4 5 6 show ?thesis by blast
qed

theorem duration_is_wall_clock_difference_witness:
  "map observed sample_finish_calls = [None, Some (1 / 50), Some (1 / 50)] \<and>
   duration_of sample_env error_response = 1 / 50 \<and>
   monotonic_duration sample_env error_response = 1 / 50 \<and>
   unadjusted (during sample_env) \<and>
   net_adjustment (during cancelling_env) = 0 \<and>
   \<not> unadjusted (during cancelling_env) \<and>
   duration_of cancelling_env normal_response = monotonic_duration cancelling_env normal_response \<and>
   net_adjustment (during set_back_env) = - 3600000 \<and>
   duration_of set_back_env normal_response \<noteq> monotonic_duration set_back_env normal_response"
proof -
  have u: "unadjusted (during sample_env)"
    by (simp add: sample_env_def)
  have d: "duration_of sample_env error_response = 1 / 50"
    by (simp add: duration_of_def finish_now_def sample_env_def error_response_def)
  have c: "net_adjustment (during cancelling_env) = 0" "\<not> unadjusted (during cancelling_env)"
    by (simp_all add: cancelling_env_def)
  have s: "net_adjustment (during set_back_env) = - 3600000"
    by (simp add: set_back_env_def)
  have a: "map observed sample_finish_calls = [None, Some (1 / 50), Some (1 / 50)]"
    "monotonic_duration sample_env error_response = 1 / 50"
    using duration_is_wall_clock_difference [of "\<lambda>i. 1 / 2" sample_env "get ''/abnormal''" 0
        error_response sample_handler_calls sample_finish_calls 1]
      calls_index_abnormal_error u
    by (simp_all add: d)
  have b: "duration_of cancelling_env normal_response = monotonic_duration cancelling_env normal_response"
    using duration_is_wall_clock_difference [where e = cancelling_env and res = normal_response] c(1)
    by blast
  have n: "duration_of set_back_env normal_response \<noteq> monotonic_duration set_back_env normal_response"
    using duration_is_wall_clock_difference [where e = set_back_env and res = normal_response] s
    by simp
  from a d u c b s n show ?thesis by blast
qed

subsection \<open>What every request leaves in the process state\<close>

lemma dispatch_index_500:
  assumes "dispatch_index req rng n = (res, hc, n')" and "statusCode res = 500"
  shows "hc = [logger_info ''Abnormal endpoint called'' [],
               logger_error ''Internal Server Error occurred''
                 [(''endpoint'', JStr (req_path req)), (''method'', JStr (req_method req))]]"
  using assms
  by (auto simp: dispatch_index_def normal_index_def abnormal_index_def metrics_index_def
      Math_random_def Let_def res_json_def not_found_def options_reply_def
      split: option.splits prod.splits if_splits route.splits)

lemma serve_index_split:
  assumes "serve_index rng e req w = (res, w')"
  obtains hc n' where "dispatch_index req rng (draws w) = (res, hc, n')"
  using assms
  by (auto simp: serve_index_def calls_index_def Let_def split: prod.splits)

lemma serve_part_split:
  assumes "serve_part rng e req w = (res, w')"
  obtains hc n' where "dispatch_part req rng (draws w) = (res, hc, n')"
  using assms
  by (auto simp: serve_part_def calls_part_def Let_def split: prod.splits)

lemma serve_index_reflected:
  assumes "serve_index rng e req w = (res, w')"
  shows "reflected req (statusCode res) w w'" and "last (logged w') = completed req res e"
proof -
  from assms obtain hc n' where d: "dispatch_index req rng (draws w) = (res, hc, n')"
    by (rule serve_index_split)
  from assms show "reflected req (statusCode res) w w'"
    by (auto simp: serve_index_world [OF d] reflected_def value_of_increment count_of_observe
        labels_of_def)
  from assms show "last (logged w') = completed req res e"
    by (auto simp: serve_index_world [OF d])
qed

lemma serve_part_reflected:
  assumes "serve_part rng e req w = (res, w')"
  shows "reflected req (statusCode res) w w'" and "new_records w w' = [completed req res e]"
proof -
  from assms obtain hc n' where d: "dispatch_part req rng (draws w) = (res, hc, n')"
    by (rule serve_part_split)
  from assms show "reflected req (statusCode res) w w'"
    by (auto simp: serve_part_world [OF d] reflected_def value_of_increment count_of_observe
        labels_of_def)
  from assms show "new_records w w' = [completed req res e]"
    by (auto simp: serve_part_world [OF d] new_records_def)
qed

lemma serve_part_abnormal_error:
  "serve_part (\<lambda>i. 1 / 2) sample_env (get ''/abnormal'') initial =
     (error_response,
      initial\<lparr>requestCounter := incrementCounter (labels_of (get ''/abnormal'') error_response) Map.empty,
              responseTimeHistogram :=
                observeHistogram (cfg_buckets responseTimeHistogram_part)
                  (labels_of (get ''/abnormal'') error_response)
                  (duration_of sample_env error_response) Map.empty,
              logged := [completed (get ''/abnormal'') error_response sample_env],
              draws := 1\<rparr>)"
proof -
  have "dispatch_part (get ''/abnormal'') (\<lambda>i. 1 / 2) (draws initial) = (error_response, [], 1)"
    by (simp add: dispatch_part_def get_def find_route_abnormal handles_def abnormal_part_def
        Math_random_def double_0_3_def double_0_6_def Let_def res_json_eval initial_def)
  from serve_part_world [OF this] show ?thesis
    by (simp add: initial_def)
qed

lemma serve_index_abnormal_error:
  "serve_index (\<lambda>i. 1 / 2) sample_env (get ''/abnormal'') initial =
     (error_response,
      initial\<lparr>requestCounter := incrementCounter (labels_of (get ''/abnormal'') error_response) Map.empty,
              responseTimeHistogram :=
                observeHistogram (cfg_buckets responseTimeHistogram_index)
                  (labels_of (get ''/abnormal'') error_response)
                  (duration_of sample_env error_response) Map.empty,
              logged := records sample_handler_calls @
                        [completed (get ''/abnormal'') error_response sample_env],
              draws := 1\<rparr>)"
proof -
  have "dispatch_index (get ''/abnormal'') (\<lambda>i. 1 / 2) (draws initial) =
      (error_response, sample_handler_calls, 1)"
    using calls_index_abnormal_error by (simp add: calls_index_def Let_def initial_def split: prod.splits)
  from serve_index_world [OF this] show ?thesis
    by (simp add: initial_def)
qed

subsection \<open>Claim C7\<close>

text \<open>
  C7 as stated fails for \<open>src/unnamed/part_000\<close>, whose handlers never call the logger:
  when \<open>GET /abnormal\<close> draws 0.5 and answers 500, the only record of the request is
  the \<open>Request completed\<close> record of the middleware, at severity info.
\<close>

theorem error_severity_counterexample:
  "statusCode (fst (serve_part (\<lambda>i. 1 / 2) sample_env (get ''/abnormal'') initial)) = 500 \<and>
   map level (logged (snd (serve_part (\<lambda>i. 1 / 2) sample_env (get ''/abnormal'') initial))) = [Info] \<and>
   filter (\<lambda>r. level r = Error)
     (logged (snd (serve_part (\<lambda>i. 1 / 2) sample_env (get ''/abnormal'') initial))) = []"
  by (simp add: serve_part_abnormal_error error_response_def completed_def)

text \<open>
  C7 as amended: whenever a handler produces the simulated 500 response, it returns the
  response as a value and raises nothing, so the request is served to its end, and the 500
  outcome is reflected in the metrics: the counter and the histogram count under the
  request's method, path and status 500 are one higher. In \<open>src/index.js\<close> the handler emits one record at error
  severity, \<open>Internal Server Error occurred\<close>, between its own info record and the
  \<open>Request completed\<close> record. In \<open>src/unnamed/part_000\<close> the request emits the
  \<open>Request completed\<close> record only, at severity info with status 500.
\<close>

theorem simulated_error_recorded:
  "(serve_index rng e req w = (res, w') \<and> statusCode res = 500 \<longrightarrow>
      reflected req 500 w w' \<and>
      new_records w w' =
        [\<lparr>level = Info, message = ''Abnormal endpoint called'', meta = []\<rparr>,
         \<lparr>level = Error, message = ''Internal Server Error occurred'',
          meta = [(''endpoint'', JStr (req_path req)), (''method'', JStr (req_method req))]\<rparr>,
         completed req res e]) \<and>
   (serve_part rng e req w = (res, w') \<and> statusCode res = 500 \<longrightarrow>
      reflected req 500 w w' \<and>
      new_records w w' = [completed req res e] \<and>
      level (completed req res e) = Info \<and>
      map_of (meta (completed req res e)) ''status'' = Some (JNum 500))"
proof (intro conjI impI; elim conjE)
  assume s: "serve_index rng e req w = (res, w')" and c: "statusCode res = 500"
  from s obtain hc n' where d: "dispatch_index req rng (draws w) = (res, hc, n')"
    by (rule serve_index_split)
  from serve_index_reflected(1) [OF s] c show "reflected req 500 w w'" by simp
  from s show "new_records w w' =
        [\<lparr>level = Info, message = ''Abnormal endpoint called'', meta = []\<rparr>,
         \<lparr>level = Error, message = ''Internal Server Error occurred'',
          meta = [(''endpoint'', JStr (req_path req)), (''method'', JStr (req_method req))]\<rparr>,
         completed req res e]"
    by (auto simp: serve_index_world [OF d] dispatch_index_500 [OF d c] new_records_def
        logger_info_def logger_error_def)
next
  assume s: "serve_part rng e req w = (res, w')" and c: "statusCode res = 500"
  from serve_part_reflected(1) [OF s] c show "reflected req 500 w w'" by simp
  from serve_part_reflected(2) [OF s] show "new_records w w' = [completed req res e]" .
  show "level (completed req res e) = Info" by (simp add: completed_def)
  from c show "map_of (meta (completed req res e)) ''status'' = Some (JNum 500)"
    by (simp add: completed_def)
qed

theorem simulated_error_recorded_witness:
  "statusCode error_response = 500 \<and>
   map message (logged (snd (serve_index (\<lambda>i. 1 / 2) sample_env (get ''/abnormal'') initial))) =
     [''Abnormal endpoint called'', ''Internal Server Error occurred'', ''Request completed''] \<and>
   map level (logged (snd (serve_index (\<lambda>i. 1 / 2) sample_env (get ''/abnormal'') initial))) =
     [Info, Error, Info] \<and>
   value_of (requestCounter (snd (serve_index (\<lambda>i. 1 / 2) sample_env (get ''/abnormal'') initial)))
     \<lparr>l_method = ''GET'', l_endpoint = ''/abnormal'', l_status = 500\<rparr> = 1 \<and>
   count_of (responseTimeHistogram (snd (serve_part (\<lambda>i. 1 / 2) sample_env (get ''/abnormal'') initial)))
     \<lparr>l_method = ''GET'', l_endpoint = ''/abnormal'', l_status = 500\<rparr> = 1 \<and>
   map message (logged (snd (serve_part (\<lambda>i. 1 / 2) sample_env (get ''/abnormal'') initial))) =
     [''Request completed'']"
proof -
  have c: "statusCode error_response = 500"
    by (simp add: error_response_def)
  have z: "value_of (requestCounter initial) l = 0" "count_of (responseTimeHistogram initial) l = 0"
    "logged initial = []" for l
    by (simp_all add: initial_def value_of_def count_of_def)
  have i: "serve_index (\<lambda>i. 1 / 2) sample_env (get ''/abnormal'') initial =
      (error_response, snd (serve_index (\<lambda>i. 1 / 2) sample_env (get ''/abnormal'') initial))"
    and p: "serve_part (\<lambda>i. 1 / 2) sample_env (get ''/abnormal'') initial =
      (error_response, snd (serve_part (\<lambda>i. 1 / 2) sample_env (get ''/abnormal'') initial))"
    by (simp_all add: serve_index_abnormal_error serve_part_abnormal_error)
  show ?thesis
    using simulated_error_recorded [THEN conjunct1, rule_format, OF conjI, OF i c]
      simulated_error_recorded [THEN conjunct2, rule_format, OF conjI, OF p c]
    by (simp add: reflected_def new_records_def z c completed_def) (simp add: get_def)
qed

subsection \<open>Claim C9\<close>

text \<open>
  C9. The middleware runs for every request, whatever its method and path: each request
  served leaves the counter \<open>http_requests_total\<close> and the count of the histogram one
  higher under the labels made of its method, its raw request path and the status of its
  response, and the last log record is the \<open>Request completed\<close> record with that path as
  endpoint. In particular \<open>GET /metrics\<close> is recorded with status 200, and a request to a
  path that no route matches is recorded with status 404. This holds in both source files.
\<close>

theorem every_request_recorded:
  assumes "serve_index rng e req w = (res, w')" and "serve_part rng e req v = (res2, v')"
  shows "reflected req (statusCode res) w w' \<and> last (logged w') = completed req res e \<and>
         reflected req (statusCode res2) v v' \<and> last (logged v') = completed req res2 e \<and>
         message (completed req res e) = ''Request completed'' \<and>
         message (completed req res2 e) = ''Request completed'' \<and>
         map_of (meta (completed req res e)) ''endpoint'' = Some (JStr (req_path req)) \<and>
         map_of (meta (completed req res2 e)) ''endpoint'' = Some (JStr (req_path req)) \<and>
         (req = get ''/metrics'' \<longrightarrow> statusCode res = 200 \<and> statusCode res2 = 200) \<and>
         (find_route (req_path req) = None \<longrightarrow> statusCode res = 404 \<and> statusCode res2 = 404)"
proof -
  from assms(1) obtain hc n' where d: "dispatch_index req rng (draws w) = (res, hc, n')"
    by (rule serve_index_split)
  from assms(2) obtain hc2 n2 where d2: "dispatch_part req rng (draws v) = (res2, hc2, n2)"
    by (rule serve_part_split)
  have "last (logged v') = completed req res2 e"
    using assms(2) by (auto simp: serve_part_world [OF d2])
  moreover have "req = get ''/metrics'' \<longrightarrow> statusCode res = 200 \<and> statusCode res2 = 200"
    using d d2 by (auto simp: dispatch_index_metrics dispatch_part_metrics)
  moreover have "find_route (req_path req) = None \<longrightarrow> statusCode res = 404 \<and> statusCode res2 = 404"
    using d d2 by (auto simp: dispatch_unrouted not_found_def)
  ultimately show ?thesis
    using serve_index_reflected [OF assms(1)] serve_part_reflected(1) [OF assms(2)]
    by (simp add: completed_def)
qed

theorem every_request_recorded_witness:
  "value_of (requestCounter (snd (serve_index (\<lambda>i. 0) sample_env (get ''/metrics'') initial)))
     \<lparr>l_method = ''GET'', l_endpoint = ''/metrics'', l_status = 200\<rparr> = 1 \<and>
   count_of (responseTimeHistogram (snd (serve_part (\<lambda>i. 0) sample_env (get ''/metrics'') initial)))
     \<lparr>l_method = ''GET'', l_endpoint = ''/metrics'', l_status = 200\<rparr> = 1 \<and>
   find_route ''/users/42'' = None \<and>
   statusCode (fst (serve_index (\<lambda>i. 0) sample_env (get ''/users/42'') initial)) = 404 \<and>
   value_of (requestCounter (snd (serve_part (\<lambda>i. 0) sample_env (get ''/users/42'') initial)))
     \<lparr>l_method = ''GET'', l_endpoint = ''/users/42'', l_status = 404\<rparr> = 1 \<and>
   message (last (logged (snd (serve_index (\<lambda>i. 0) sample_env (get ''/users/42'') initial)))) =
     ''Request completed''"
proof -
  have pair: "\<And>x :: response \<times> world. x = (fst x, snd x)" by simp
  have z: "value_of (requestCounter initial) l = 0" "count_of (responseTimeHistogram initial) l = 0" for l
    by (simp_all add: initial_def value_of_def count_of_def)
  have p: "req_path (get ''/users/42'') = ''/users/42''" "req_method (get ''/users/42'') = ''GET''"
    "req_path (get ''/metrics'') = ''/metrics''" "req_method (get ''/metrics'') = ''GET''"
    by (simp_all add: get_def)
  show ?thesis
    using every_request_recorded [OF pair pair, where rng = "\<lambda>i. 0" and e = sample_env
        and req = "get ''/metrics''" and w = initial and v = initial]
      every_request_recorded [OF pair pair, where rng = "\<lambda>i. 0" and e = sample_env
        and req = "get ''/users/42''" and w = initial and v = initial]
    by (auto simp: reflected_def z p find_route_users)
qed

subsection \<open>The two source files side by side\<close>

lemma configs_equal:
  "requestCounter_index = requestCounter_part"
  "responseTimeHistogram_index = responseTimeHistogram_part"
  by (simp_all add: requestCounter_index_def requestCounter_part_def
      responseTimeHistogram_index_def responseTimeHistogram_part_def)

lemma finish_equal: "finish_index = finish_part"
  by (simp add: fun_eq_iff finish_index_def finish_part_def)

lemma dispatch_same:
  "fst (dispatch_index req rng n) = fst (dispatch_part req rng n)"
  "snd (snd (dispatch_index req rng n)) = snd (snd (dispatch_part req rng n))"
  by (auto simp: dispatch_index_def dispatch_part_def normal_index_def normal_part_def
      abnormal_index_def abnormal_part_def metrics_index_def metrics_part_def
      Math_random_def Let_def
      split: option.splits prod.splits route.splits)

lemma serve_same:
  assumes "metrics_of w = metrics_of v" and "draws w = draws v"
  shows "fst (serve_index rng e req w) = fst (serve_part rng e req v)"
    and "metrics_of (snd (serve_index rng e req w)) = metrics_of (snd (serve_part rng e req v))"
    and "draws (snd (serve_index rng e req w)) = draws (snd (serve_part rng e req v))"
proof -
  obtain res hc n' where d: "dispatch_index req rng (draws w) = (res, hc, n')"
    by (cases "dispatch_index req rng (draws w)")
  obtain res2 hc2 n2 where d2: "dispatch_part req rng (draws v) = (res2, hc2, n2)"
    by (cases "dispatch_part req rng (draws v)")
  from dispatch_same [of req rng "draws v"] d d2 assms(2)
  have eq: "res2 = res" "n2 = n'" by simp_all
  from assms(1) have m: "requestCounter w = requestCounter v"
    "responseTimeHistogram w = responseTimeHistogram v"
    by (simp_all add: metrics_of_def)
  show "fst (serve_index rng e req w) = fst (serve_part rng e req v)"
    by (simp add: serve_index_world [OF d] serve_part_world [OF d2] eq)
  show "metrics_of (snd (serve_index rng e req w)) = metrics_of (snd (serve_part rng e req v))"
    by (simp add: serve_index_world [OF d] serve_part_world [OF d2] eq metrics_of_def m
        configs_equal)
  show "draws (snd (serve_index rng e req w)) = draws (snd (serve_part rng e req v))"
    by (simp add: serve_index_world [OF d] serve_part_world [OF d2] eq)
qed

lemma run_same:
  "metrics_of w = metrics_of v \<Longrightarrow> draws w = draws v \<Longrightarrow>
     metrics_of (run_index rng reqs w) = metrics_of (run_part rng reqs v)"
proof (induction reqs arbitrary: w v)
  case Nil
  then show ?case by simp
next
  case (Cons x reqs)
  obtain e req where x: "x = (e, req)" by (cases x)
  show ?case
    unfolding x run_index.simps run_part.simps
    by (rule Cons.IH) (rule serve_same [OF Cons.prems])+
qed

subsection \<open>Claim C10\<close>

text \<open>
  C10. The two source files register a counter named \<open>http_requests_total\<close> and a histogram
  named \<open>http_response_time_seconds\<close> with the same label names \<open>method\<close>, \<open>endpoint\<close>,
  \<open>status\<close> and the same bucket bounds 0.1, 0.5, 1, 2, 5, 50, 100, 200, 500, 1000; their
  finish callbacks make the same calls to the counter, the histogram and the logger; and for
  the same sequence of requests, with the same clock readings and random values, from the
  same state, both end in the same metric state.
\<close>

theorem variants_equivalent:
  "requestCounter_index = requestCounter_part \<and>
   responseTimeHistogram_index = responseTimeHistogram_part \<and>
   cfg_name requestCounter_part = ''http_requests_total'' \<and>
   cfg_name responseTimeHistogram_part = ''http_response_time_seconds'' \<and>
   cfg_labelNames requestCounter_part = [''method'', ''endpoint'', ''status''] \<and>
   cfg_labelNames responseTimeHistogram_part = [''method'', ''endpoint'', ''status''] \<and>
   cfg_buckets responseTimeHistogram_part = [1 / 10, 1 / 2, 1, 2, 5, 50, 100, 200, 500, 1000] \<and>
   finish_index = finish_part \<and>
   metrics_of (run_index rng reqs w) = metrics_of (run_part rng reqs w)"
proof -
  have "metrics_of (run_index rng reqs w) = metrics_of (run_part rng reqs w)"
    by (rule run_same) simp_all
  moreover have "cfg_name requestCounter_part = ''http_requests_total''"
    "cfg_name responseTimeHistogram_part = ''http_response_time_seconds''"
    "cfg_labelNames requestCounter_part = [''method'', ''endpoint'', ''status'']"
    "cfg_labelNames responseTimeHistogram_part = [''method'', ''endpoint'', ''status'']"
    "cfg_buckets responseTimeHistogram_part = [1 / 10, 1 / 2, 1, 2, 5, 50, 100, 200, 500, 1000]"
    by (simp_all add: requestCounter_part_def responseTimeHistogram_part_def)
  ultimately show ?thesis
    using configs_equal finish_equal by blast
qed

lemma run_part_sample:
  "value_of (requestCounter (run_part (\<lambda>i. if i = 0 then 1 / 2 else 1 / 8) sample_requests initial))
     \<lparr>l_method = ''GET'', l_endpoint = ''/abnormal'', l_status = 500\<rparr> = 1"
  "count_of (responseTimeHistogram (run_part (\<lambda>i. if i = 0 then 1 / 2 else 1 / 8) sample_requests initial))
     \<lparr>l_method = ''GET'', l_endpoint = ''/abnormal'', l_status = 200\<rparr> = 1"
  by (simp_all add: sample_requests_def serve_part_def calls_part_def dispatch_part_def
      get_def find_route_normal find_route_abnormal find_route_users handles_def
      normal_part_def abnormal_part_def Math_random_def double_0_3_def double_0_6_def Let_def res_json_def not_found_def
      finish_part_def logger_info_def run_calls_def initial_def value_of_def count_of_def
      incrementCounter_def observeHistogram_def observe_series_def new_series_def)

theorem variants_equivalent_witness:
  "value_of (fst (metrics_of (run_index (\<lambda>i. if i = 0 then 1 / 2 else 1 / 8) sample_requests initial)))
     \<lparr>l_method = ''GET'', l_endpoint = ''/abnormal'', l_status = 500\<rparr> = 1 \<and>
   count_of (snd (metrics_of (run_index (\<lambda>i. if i = 0 then 1 / 2 else 1 / 8) sample_requests initial)))
     \<lparr>l_method = ''GET'', l_endpoint = ''/abnormal'', l_status = 200\<rparr> = 1"
  using variants_equivalent [of "\<lambda>i. if i = 0 then 1 / 2 else 1 / 8" sample_requests initial]
    run_part_sample
  by (simp add: metrics_of_def)

subsection \<open>The serialized form of log records\<close>

lemma is_digit_digit: "is_digit (digit n)"
proof -
  have "n mod 10 < length ''0123456789''" by simp
  then have "''0123456789'' ! (n mod 10) \<in> set ''0123456789''" by (rule nth_mem)
  then show ?thesis by (simp only: is_digit_def digit_def)
qed

lemma digit_not_brace: "digit n \<noteq> CHR ''{''"
  using is_digit_digit [of n] by (auto simp: is_digit_def)

lemma iso8601_toISOString: "iso8601 (toISOString d)"
  by (simp add: iso8601_def toISOString_def pad2_def pad3_def pad4_def is_digit_digit)

lemma not_iso8601_YMD_HMS: "\<not> iso8601 (format_YMD_HMS d)"
  by (simp add: iso8601_def format_YMD_HMS_def pad2_def pad4_def)

lemma map_of_set_key:
  "map_of (set_key k v xs) k' = (if k' = k then Some v else map_of xs k')"
  by (induction xs) auto

lemma filter_set_key:
  "\<not> P (k, v) \<Longrightarrow> (\<And>u. P (k, u) = P (k, v)) \<Longrightarrow> filter P (set_key k v xs) = filter P xs"
  by (induction xs) (auto split: prod.splits)

lemma stringify_object_text: "json_object_text (stringify (JObj kvs))"
  by (simp add: json_object_text_def)

lemma info_part_timestamp: "map_of (info_part d r) ''timestamp'' = Some (JStr (toISOString d))"
  by (simp add: info_part_def format_timestamp_def map_of_set_key)

lemma info_index_fields:
  "map_of (info_index d r) ''timestamp'' = Some (JStr (format_YMD_HMS d))"
  "map_of (info_index d r) ''level'' = Some (JStr (colour (level_name (level r))))"
  "map_of (info_index d r) ''message'' = Some (JStr (message r))"
  by (simp_all add: info_index_def format_colorize_def format_timestamp_def make_info_def
      map_of_set_key)

lemma info_index_rest: "rest_meta (info_index d r) = rest_meta (meta r)"
  by (simp add: rest_meta_def info_index_def format_colorize_def format_timestamp_def
      make_info_def map_of_set_key filter_set_key)

lemma serialize_index_line:
  "serialize_index d r =
     format_YMD_HMS d @ '' ['' @ colour (level_name (level r)) @ '']: '' @ message r @ '' '' @
     (if rest_meta (meta r) = [] then [] else stringify (JObj (rest_meta (meta r))))"
  by (simp add: serialize_index_def printf_index_def interpolate_def info_index_fields
      info_index_rest Let_def del: stringify.simps)

lemma serialize_index_not_object: "\<not> json_object_text (serialize_index d r)"
  by (simp add: serialize_index_line json_object_text_def format_YMD_HMS_def pad4_def
      digit_not_brace del: stringify.simps)

lemma serialize_called:
  "serialize_index sample_date called_record =
     ''2024-01-02 03:04:05 ['' @ CHR 0x1B # ''[32minfo'' @ CHR 0x1B # ''[39m]: Normal endpoint called ''"
  by (simp add: serialize_index_line called_record_def sample_date_def format_YMD_HMS_def
      pad2_def pad4_def digit_def colour_def level_name_def rest_meta_def)

lemma info_index_called:
  "map_of (info_index sample_date called_record) ''timestamp'' = Some (JStr ''2024-01-02 03:04:05'')"
  by (simp add: info_index_fields sample_date_def format_YMD_HMS_def pad2_def pad4_def digit_def)

subsection \<open>Claim C8\<close>

text \<open>
  C8 as stated fails for \<open>src/index.js\<close>, whose logger prints a line of text from a
  template and stamps it with the pattern \<open>YYYY-MM-DD HH:mm:ss\<close>. The record of
  \<open>logger.info('Normal endpoint called')\<close> is serialized as the line below: it is not
  the text of a keyed structure, and its timestamp has a space where ISO-8601 has
  \<open>T\<close>.
\<close>

theorem keyed_iso_timestamp_counterexample:
  "serialize_index sample_date called_record =
     ''2024-01-02 03:04:05 ['' @ CHR 0x1B # ''[32minfo'' @ CHR 0x1B # ''[39m]: Normal endpoint called '' \<and>
   \<not> json_object_text (serialize_index sample_date called_record) \<and>
   map_of (info_index sample_date called_record) ''timestamp'' = Some (JStr ''2024-01-02 03:04:05'') \<and>
   \<not> iso8601 ''2024-01-02 03:04:05'' \<and>
   \<not> keyed_with_timestamp (info_index sample_date called_record)
       (serialize_index sample_date called_record)"
  by (simp add: serialize_called info_index_called keyed_with_timestamp_def)
    (simp add: json_object_text_def iso8601_def)

text \<open>
  C8 as amended: the logger stamps every record, also one whose caller supplied no
  timestamp. In \<open>src/unnamed/part_000\<close> every record is serialized as the JSON text of a
  keyed structure whose key \<open>timestamp\<close> holds the ISO-8601 date of \<open>toISOString\<close>,
  whichever way the library arranges the keys. In \<open>src/index.js\<close> every record is
  serialized as the text line \<open>timestamp [level]: message meta\<close>, where the timestamp has
  the pattern \<open>YYYY-MM-DD HH:mm:ss\<close>, the level is coloured, and the metadata left over
  is JSON text or, if there is none, empty: the line is never the text of a JSON object and
  the timestamp is never in the ISO-8601 shape.
\<close>

theorem records_are_stamped:
  assumes "map_of (arrange (info_part d r)) = map_of (info_part d r)"
  shows "keyed_with_timestamp (arrange (info_part d r)) (serialize_part arrange d r) \<and>
         map_of (arrange (info_part d r)) ''timestamp'' = Some (JStr (toISOString d)) \<and>
         serialize_index d r =
           format_YMD_HMS d @ '' ['' @ colour (level_name (level r)) @ '']: '' @ message r @ '' '' @
           (if rest_meta (meta r) = [] then [] else stringify (JObj (rest_meta (meta r)))) \<and>
         map_of (info_index d r) ''timestamp'' = Some (JStr (format_YMD_HMS d)) \<and>
         \<not> json_object_text (serialize_index d r) \<and>
         \<not> iso8601 (format_YMD_HMS d)"
proof -
  have t: "map_of (arrange (info_part d r)) ''timestamp'' = Some (JStr (toISOString d))"
    by (simp add: assms info_part_timestamp)
  have "keyed_with_timestamp (arrange (info_part d r)) (serialize_part arrange d r)"
    unfolding keyed_with_timestamp_def serialize_part_def format_json_def
    by (simp only: stringify_object_text t iso8601_toISOString option.case json.case simp_thms)
  then show ?thesis
    using t serialize_index_line info_index_fields(1) serialize_index_not_object
      not_iso8601_YMD_HMS
    by blast
qed

theorem records_are_stamped_witness:
  \<open>serialize_part (\<lambda>kvs. kvs) sample_date called_record =
     ''{"level":"info","message":"Normal endpoint called","timestamp":"2024-01-02T03:04:05.006Z"}'' \<and>
   json_object_text (serialize_part (\<lambda>kvs. kvs) sample_date called_record) \<and>
   iso8601 ''2024-01-02T03:04:05.006Z'' \<and>
   \<not> json_object_text (serialize_index sample_date called_record)\<close>
proof -
  have t: \<open>toISOString sample_date = ''2024-01-02T03:04:05.006Z''\<close>
    by (simp add: toISOString_def sample_date_def pad2_def pad3_def pad4_def digit_def)
  have i: "info_part sample_date called_record =
      [(''level'', JStr ''info''), (''message'', JStr ''Normal endpoint called''),
       (''timestamp'', JStr ''2024-01-02T03:04:05.006Z'')]"
    by (simp add: info_part_def format_timestamp_def make_info_def called_record_def
        level_name_def t)
  have k: "keyed_with_timestamp (info_part sample_date called_record)
      (serialize_part (\<lambda>kvs. kvs) sample_date called_record)"
    and n: "\<not> json_object_text (serialize_index sample_date called_record)"
    using records_are_stamped [of "\<lambda>kvs. kvs" sample_date called_record] by blast+
  from k have s: "serialize_part (\<lambda>kvs. kvs) sample_date called_record =
      stringify (JObj (info_part sample_date called_record))"
    and j: "json_object_text (serialize_part (\<lambda>kvs. kvs) sample_date called_record)"
    and c: "case map_of (info_part sample_date called_record) ''timestamp'' of
        Some (JStr t) \<Rightarrow> iso8601 t | _ \<Rightarrow> False"
    unfolding keyed_with_timestamp_def by blast+
  from c have "iso8601 ''2024-01-02T03:04:05.006Z''"
    by (simp add: i)
  moreover from s have \<open>serialize_part (\<lambda>kvs. kvs) sample_date called_record =
      ''{"level":"info","message":"Normal endpoint called","timestamp":"2024-01-02T03:04:05.006Z"}''\<close>
    by (simp add: i quote_def commas_def)
  ultimately show ?thesis
    using j n by blast
qed

end
